theory Spec2Isabelle
  imports Complex_Main "HOL-Library.Sublist" "HOL-Library.Char_ord" "HOL-Library.List_Lexorder"
    "HOL-Library.AList" "HOL-Library.Log_Nat"
begin

section \<open>Python strings\<close>

text \<open>
  A Python \<^verbatim>\<open>str\<close> is modelled as a \<^typ>\<open>string\<close> whose characters are the code
  points below 256. On these code points \<^verbatim>\<open>str.isspace\<close> (which \<^verbatim>\<open>str.strip\<close> and the
  regular expression class \<^verbatim>\<open>\s\<close> use), \<^verbatim>\<open>str.lower\<close> and the class \<^verbatim>\<open>\w\<close> are the
  tables below.
\<close>

definition py_isspace :: "char \<Rightarrow> bool" where
  "py_isspace c =
     (let n = (of_char c :: nat)
      in (9 \<le> n \<and> n \<le> 13) \<or> (28 \<le> n \<and> n \<le> 32) \<or> n = 133 \<or> n = 160)"

definition py_isword :: "char \<Rightarrow> bool" where
  "py_isword c =
     (let n = (of_char c :: nat)
      in (48 \<le> n \<and> n \<le> 57) \<or> (65 \<le> n \<and> n \<le> 90) \<or> n = 95 \<or> (97 \<le> n \<and> n \<le> 122)
         \<or> n = 170 \<or> n = 178 \<or> n = 179 \<or> n = 181 \<or> n = 185 \<or> n = 186
         \<or> (188 \<le> n \<and> n \<le> 190) \<or> (192 \<le> n \<and> n \<le> 214) \<or> (216 \<le> n \<and> n \<le> 246)
         \<or> (248 \<le> n \<and> n \<le> 255))"

text \<open>
  The upper-case code points have bit 5 clear, and their lower-case partner is 32 above:
  lowering sets bit 5.
\<close>

definition py_lower_char :: "char \<Rightarrow> char" where
  "py_lower_char c =
     (let n = (of_char c :: nat)
      in if (65 \<le> n \<and> n \<le> 90) \<or> (192 \<le> n \<and> n \<le> 214) \<or> (216 \<le> n \<and> n \<le> 222)
         then (case c of Char b0 b1 b2 b3 b4 b5 b6 b7 \<Rightarrow> Char b0 b1 b2 b3 b4 True b6 b7)
         else c)"

definition py_lower :: "string \<Rightarrow> string" where
  "py_lower s = map py_lower_char s"

definition py_strip :: "string \<Rightarrow> string" where
  "py_strip s = rev (dropWhile py_isspace (rev (dropWhile py_isspace s)))"

text \<open>\<^verbatim>\<open>s.split(sep)\<close> for a one-character separator: one more part than separators.\<close>

fun py_split :: "char \<Rightarrow> string \<Rightarrow> string list" where
  "py_split sep [] = [[]]"
| "py_split sep (c # cs) =
     (if c = sep then [] # py_split sep cs
      else (case py_split sep cs of [] \<Rightarrow> [[c]] | p # ps \<Rightarrow> (c # p) # ps))"

fun py_join :: "string \<Rightarrow> string list \<Rightarrow> string" where
  "py_join sep [] = []"
| "py_join sep [x] = x"
| "py_join sep (x # y # ys) = x @ sep @ py_join sep (y # ys)"

definition py_startswith :: "string \<Rightarrow> string \<Rightarrow> bool" where
  "py_startswith s p = prefix p s"

text \<open>\<^verbatim>\<open>a in b\<close> on strings: \<open>a\<close> occurs in \<open>b\<close> as a contiguous run.\<close>

definition py_in :: "string \<Rightarrow> string \<Rightarrow> bool" where
  "py_in a b = sublist a b"

text \<open>
  \<^verbatim>\<open>s.replace(word, '')\<close> for a non-empty word: the occurrences are found from the left
  and do not overlap. The counter is the number of characters of the current occurrence
  that are still to be dropped.
\<close>

fun remove_word :: "string \<Rightarrow> nat \<Rightarrow> string \<Rightarrow> string" where
  "remove_word word n [] = []"
| "remove_word word (Suc n) (c # cs) = remove_word word n cs"
| "remove_word word 0 (c # cs) =
     (if prefix word (c # cs) then remove_word word (length word - 1) cs
      else c # remove_word word 0 cs)"

text \<open>\<^verbatim>\<open>re.sub(r'\s+', ' ', s)\<close>: the flag says that the previous character was white space.\<close>

fun collapse_spaces :: "bool \<Rightarrow> string \<Rightarrow> string" where
  "collapse_spaces in_run [] = []"
| "collapse_spaces in_run (c # cs) =
     (if py_isspace c
      then (if in_run then collapse_spaces True cs else CHR '' '' # collapse_spaces True cs)
      else c # collapse_spaces False cs)"

section \<open>country\_matching.py\<close>

definition COMMON_EMAIL_DOMAINS :: "string set" where
  "COMMON_EMAIL_DOMAINS =
     {''gmail.com'', ''yahoo.com'', ''hotmail.com'', ''outlook.com'', ''icloud.com'',
      ''aol.com'', ''live.com'', ''msn.com'', ''protonmail.com'', ''yandex.com'',
      ''mail.ru'', ''qq.com'', ''163.com'', ''sina.com'', ''sohu.com''}"

definition TLD_TO_COUNTRY :: "(string \<times> string) list" where
  "TLD_TO_COUNTRY =
    [(''.cn'', ''CN''), (''.in'', ''IN''), (''.uk'', ''GB''), (''.ca'', ''CA''), (''.au'', ''AU''),
     (''.de'', ''DE''), (''.fr'', ''FR''), (''.jp'', ''JP''), (''.kr'', ''KR''), (''.sg'', ''SG''),
     (''.hk'', ''HK''), (''.tw'', ''TW''), (''.my'', ''MY''), (''.th'', ''TH''), (''.ph'', ''PH''),
     (''.id'', ''ID''), (''.vn'', ''VN''), (''.bd'', ''BD''), (''.pk'', ''PK''), (''.lk'', ''LK''),
     (''.np'', ''NP''), (''.mm'', ''MM''), (''.kh'', ''KH''), (''.la'', ''LA''), (''.bn'', ''BN''),
     (''.mx'', ''MX''), (''.br'', ''BR''), (''.ar'', ''AR''), (''.cl'', ''CL''), (''.co'', ''CO''),
     (''.pe'', ''PE''), (''.ve'', ''VE''), (''.ec'', ''EC''), (''.uy'', ''UY''), (''.py'', ''PY''),
     (''.bo'', ''BO''), (''.za'', ''ZA''), (''.ng'', ''NG''), (''.ke'', ''KE''), (''.eg'', ''EG''),
     (''.ma'', ''MA''), (''.tn'', ''TN''), (''.dz'', ''DZ''), (''.ru'', ''RU''), (''.ua'', ''UA''),
     (''.by'', ''BY''), (''.kz'', ''KZ''), (''.uz'', ''UZ''), (''.kg'', ''KG''), (''.tj'', ''TJ''),
     (''.tm'', ''TM''), (''.af'', ''AF''), (''.ir'', ''IR''), (''.iq'', ''IQ''), (''.sy'', ''SY''),
     (''.lb'', ''LB''), (''.jo'', ''JO''), (''.il'', ''IL''), (''.ps'', ''PS''), (''.sa'', ''SA''),
     (''.ae'', ''AE''), (''.qa'', ''QA''), (''.kw'', ''KW''), (''.bh'', ''BH''), (''.om'', ''OM''),
     (''.ye'', ''YE''), (''.tr'', ''TR''), (''.cy'', ''CY''), (''.gr'', ''GR''), (''.bg'', ''BG''),
     (''.ro'', ''RO''), (''.md'', ''MD''), (''.hu'', ''HU''), (''.sk'', ''SK''), (''.cz'', ''CZ''),
     (''.pl'', ''PL''), (''.lt'', ''LT''), (''.lv'', ''LV''), (''.ee'', ''EE''), (''.fi'', ''FI''),
     (''.se'', ''SE''), (''.no'', ''NO''), (''.dk'', ''DK''), (''.is'', ''IS''), (''.ie'', ''IE''),
     (''.pt'', ''PT''), (''.es'', ''ES''), (''.it'', ''IT''), (''.ch'', ''CH''), (''.at'', ''AT''),
     (''.be'', ''BE''), (''.nl'', ''NL''), (''.lu'', ''LU''), (''.nz'', ''NZ'')]"

text \<open>
  The dictionaries that \<^verbatim>\<open>load_universities_data\<close> returns. A Python dictionary is an
  association list with distinct keys, in insertion order; \<open>map_of\<close> looks a key up.
  The key \<^verbatim>\<open>'universities'\<close> is read by none of the functions below.
\<close>

record university_data =
  domain_to_country :: "(string \<times> string) list"
  institution_to_country :: "(string \<times> string) list"
  code_to_country_name :: "(string \<times> string) list"

definition words_to_remove :: "string list" where
  "words_to_remove =
     [''university'', ''college'', ''institute'', ''school'', ''of'', ''the'', ''and'',
      ''technology'', ''science'', ''engineering'', ''medical'', ''state'', ''national'',
      ''international'', ''private'', ''public'', ''community'']"

definition normalize_institution_name :: "string \<Rightarrow> string" where
  "normalize_institution_name name =
     (let normalized = py_lower name;
          normalized = fold (\<lambda>word normalized. remove_word word 0 normalized)
                         words_to_remove normalized;
          normalized = filter (\<lambda>c. py_isword c \<or> py_isspace c) normalized;
          normalized = py_strip (collapse_spaces False normalized)
      in normalized)"

text \<open>
  The loop of \<^verbatim>\<open>filter_email_domains\<close>, with the list \<^verbatim>\<open>filtered_domains\<close> it appends to.
\<close>

fun filter_domains_loop :: "string list \<Rightarrow> string list \<Rightarrow> string list" where
  "filter_domains_loop [] filtered_domains = filtered_domains"
| "filter_domains_loop (domain # domains) filtered_domains =
     (if domain \<noteq> [] \<and> py_lower domain \<notin> COMMON_EMAIL_DOMAINS
      then filter_domains_loop domains (filtered_domains @ [py_lower domain])
      else filter_domains_loop domains filtered_domains)"

definition filter_email_domains :: "string \<Rightarrow> string list" where
  "filter_email_domains domains_str =
     (if domains_str = [] \<or> py_strip domains_str = [] then []
      else filter_domains_loop (map py_strip (py_split CHR '';'' domains_str)) [])"

definition infer_country_from_tld :: "string \<Rightarrow> string option" where
  "infer_country_from_tld domain =
     (let parts = py_split CHR ''.'' domain
      in if length parts \<ge> 2 then map_of TLD_TO_COUNTRY (''.'' @ last parts) else None)"

text \<open>
  The inner loop of \<^verbatim>\<open>find_country_codes\<close> over the items of
  \<^verbatim>\<open>institution_to_country\<close>: the country code it adds before \<^verbatim>\<open>break\<close>, if any.
\<close>

fun fuzzy_scan :: "string \<Rightarrow> (string \<times> string) list \<Rightarrow> string option" where
  "fuzzy_scan normalized_name [] = None"
| "fuzzy_scan normalized_name ((uni_name, country_code) # items) =
     (if uni_name = [] \<or> length uni_name < 3 then fuzzy_scan normalized_name items
      else if (py_in normalized_name uni_name \<and> length normalized_name \<ge> 4)
              \<or> (py_in uni_name normalized_name \<and> length uni_name \<ge> 4)
      then Some country_code
      else fuzzy_scan normalized_name items)"

text \<open>One round of the loop over the institutions: the code this institution adds, if any.\<close>

definition match_institution :: "university_data \<Rightarrow> string \<Rightarrow> string option" where
  "match_institution ud institution =
     (let normalized_name = normalize_institution_name institution
      in if normalized_name = [] then None
         else (case map_of (institution_to_country ud) normalized_name of
                 Some country_code \<Rightarrow> Some country_code
               | None \<Rightarrow>
                   if length normalized_name \<ge> 3
                   then fuzzy_scan normalized_name (institution_to_country ud)
                   else None))"

fun match_institutions :: "university_data \<Rightarrow> string list \<Rightarrow> string set \<Rightarrow> string set" where
  "match_institutions ud [] country_codes = country_codes"
| "match_institutions ud (institution # institutions) country_codes =
     (case match_institution ud institution of
        None \<Rightarrow> match_institutions ud institutions country_codes
      | Some country_code \<Rightarrow>
          match_institutions ud institutions (insert country_code country_codes))"

text \<open>
  One round of the loop over the email domains. The value of \<^verbatim>\<open>TLD_TO_COUNTRY.get\<close> is
  tested for truth, so an empty string would not be added.
\<close>

definition match_domain :: "university_data \<Rightarrow> string \<Rightarrow> string option" where
  "match_domain ud domain =
     (case map_of (domain_to_country ud) domain of
        Some country_code \<Rightarrow> Some country_code
      | None \<Rightarrow>
          (case infer_country_from_tld domain of
             None \<Rightarrow> None
           | Some tld_country \<Rightarrow> if tld_country \<noteq> [] then Some tld_country else None))"

fun match_domains :: "university_data \<Rightarrow> string list \<Rightarrow> string set \<Rightarrow> string set" where
  "match_domains ud [] country_codes = country_codes"
| "match_domains ud (domain # email_domains) country_codes =
     (case match_domain ud domain of
        None \<Rightarrow> match_domains ud email_domains country_codes
      | Some country_code \<Rightarrow>
          match_domains ud email_domains (insert country_code country_codes))"

definition find_country_codes ::
  "university_data \<Rightarrow> string list \<Rightarrow> string list \<Rightarrow> string set" where
  "find_country_codes ud institutions email_domains =
     match_domains ud email_domains (match_institutions ud institutions {})"

text \<open>
  \<^verbatim>\<open>load_toefl_requirements\<close> on the rows that \<^verbatim>\<open>csv.DictReader\<close> yields, each given by
  its columns \<^verbatim>\<open>Country\<close> and \<^verbatim>\<open>TOEFL requirement\<close> (\<open>None\<close> when the column is
  missing). A later row for the same country overwrites the earlier one.
\<close>

definition or_empty :: "string option \<Rightarrow> string" where
  "or_empty v = (case v of None \<Rightarrow> [] | Some s \<Rightarrow> s)"

fun load_toefl_requirements ::
  "(string option \<times> string option) list \<Rightarrow> (string \<times> string) list \<Rightarrow> (string \<times> string) list" where
  "load_toefl_requirements [] requirements = requirements"
| "load_toefl_requirements ((c, r) # rows) requirements =
     (let country = py_strip (or_empty c);
          requirement = py_strip (or_empty r)
      in if country \<noteq> []
         then load_toefl_requirements rows
                (AList.update (py_lower country) requirement requirements)
         else load_toefl_requirements rows requirements)"

section \<open>Python values\<close>

text \<open>
  A Python float is not-a-number, an infinity, or a finite value, which is a rational
  number. \<^verbatim>\<open>int(x)\<close> rounds a finite float towards zero and raises
  \<^verbatim>\<open>OverflowError\<close> on an infinity.
\<close>

datatype py_float = FNan | FInf | FNegInf | FFinite rat

datatype py_value = PyNone | PyFloat py_float | PyInt int | PyStr string

datatype error = AttributeError | OverflowError | ValueError | TypeError

definition py_trunc :: "rat \<Rightarrow> int" where
  "py_trunc q = (if 0 \<le> q then \<lfloor>q\<rfloor> else \<lceil>q\<rceil>)"

text \<open>\<^verbatim>\<open>pandas.isna\<close> and \<^verbatim>\<open>math.isnan\<close>.\<close>

definition pd_isna :: "py_value \<Rightarrow> bool" where
  "pd_isna v = (v = PyNone \<or> v = PyFloat FNan)"

text \<open>
  The functions of the Python library that the code calls and that are taken as given:
  \<^verbatim>\<open>float\<close> on a string (\<open>None\<close> for \<^verbatim>\<open>ValueError\<close>), \<^verbatim>\<open>str\<close> on a number, and
  \<^verbatim>\<open>json.loads\<close> (\<open>None\<close> for \<^verbatim>\<open>json.JSONDecodeError\<close>).
\<close>

datatype json =
    JNull | JBool bool | JInt int | JFloat py_float | JStr string
  | JArray "json list" | JObject "(string \<times> json) list"

record builtins =
  float_of_str :: "string \<Rightarrow> py_float option"
  str_of_number :: "py_value \<Rightarrow> string"
  json_loads :: "string \<Rightarrow> json option"

text \<open>
  \<^verbatim>\<open>float(n)\<close> for an integer: the nearest number with 53 significant bits, a tie going
  to the even one (\<open>bitlen\<close> is \<^verbatim>\<open>int.bit_length\<close>); \<^verbatim>\<open>OverflowError\<close> when that number
  is beyond the range of a float.
\<close>

definition round_to_double :: "int \<Rightarrow> int" where
  "round_to_double n =
     (let a = \<bar>n\<bar>;
          e = nat (bitlen a - 53);
          q = a div 2 ^ e;
          r = a mod 2 ^ e;
          m = (if 2 * r > 2 ^ e \<or> (2 * r = 2 ^ e \<and> odd q) then q + 1 else q)
      in sgn n * (m * 2 ^ e))"

definition float_of_int :: "int \<Rightarrow> error + py_float" where
  "float_of_int n =
     (if \<bar>round_to_double n\<bar> \<ge> 2 ^ 1024 then Inl OverflowError
      else Inr (FFinite (of_int (round_to_double n))))"

text \<open>\<^verbatim>\<open>float(val)\<close>, with the exception it raises.\<close>

definition py_float_of :: "builtins \<Rightarrow> py_value \<Rightarrow> error + py_float" where
  "py_float_of b val =
     (case val of
        PyNone \<Rightarrow> Inl TypeError
      | PyFloat f \<Rightarrow> Inr f
      | PyInt n \<Rightarrow> float_of_int n
      | PyStr s \<Rightarrow> (case float_of_str b s of None \<Rightarrow> Inl ValueError | Some f \<Rightarrow> Inr f))"

section \<open>country\_matching.py: the education background\<close>

text \<open>The truth value of a value that \<^verbatim>\<open>json.loads\<close> returns.\<close>

fun py_truthy :: "json \<Rightarrow> bool" where
  "py_truthy JNull = False"
| "py_truthy (JBool v) = v"
| "py_truthy (JInt n) = (n \<noteq> 0)"
| "py_truthy (JFloat f) = (f \<noteq> FFinite 0)"
| "py_truthy (JStr s) = (s \<noteq> [])"
| "py_truthy (JArray xs) = (xs \<noteq> [])"
| "py_truthy (JObject kvs) = (kvs \<noteq> [])"

text \<open>
  \<^verbatim>\<open>for entry in education_data\<close>: a list yields its elements, a dictionary its keys, a
  string its characters; any other value raises \<^verbatim>\<open>TypeError\<close> (\<open>None\<close>).
\<close>

fun py_iter :: "json \<Rightarrow> json list option" where
  "py_iter (JArray xs) = Some xs"
| "py_iter (JObject kvs) = Some (map (\<lambda>(k, v). JStr k) kvs)"
| "py_iter (JStr s) = Some (map (\<lambda>c. JStr [c]) s)"
| "py_iter v = None"

text \<open>
  \<^verbatim>\<open>entry.get('institution', '')\<close>: only a dictionary has \<^verbatim>\<open>get\<close>; on any other value the
  attribute lookup raises \<^verbatim>\<open>AttributeError\<close>.
\<close>

fun get_institution :: "json \<Rightarrow> error + json" where
  "get_institution (JObject kvs) =
     (case map_of kvs ''institution'' of None \<Rightarrow> Inr (JStr []) | Some v \<Rightarrow> Inr v)"
| "get_institution v = Inl AttributeError"

fun institutions_loop :: "json list \<Rightarrow> json list \<Rightarrow> error + json list" where
  "institutions_loop [] institutions = Inr institutions"
| "institutions_loop (entry # entries) institutions =
     (case get_institution entry of
        Inl e \<Rightarrow> Inl e
      | Inr institution \<Rightarrow>
          if py_truthy institution
          then institutions_loop entries (institutions @ [institution])
          else institutions_loop entries institutions)"

text \<open>
  The handler catches \<^verbatim>\<open>json.JSONDecodeError\<close>, \<^verbatim>\<open>TypeError\<close> and \<^verbatim>\<open>ValueError\<close>;
  \<^verbatim>\<open>AttributeError\<close> is none of them and leaves the function.
\<close>

definition extract_institutions_from_education :: "builtins \<Rightarrow> py_value \<Rightarrow> error + json list" where
  "extract_institutions_from_education b education_background =
     (if education_background = PyNone then Inr []
      else if education_background = PyFloat FNan then Inr []
      else
        (let education_background =
               (case education_background of
                  PyStr s \<Rightarrow> s
                | v \<Rightarrow> str_of_number b v)
         in if education_background = [] \<or> py_strip education_background = [] then Inr []
            else (case json_loads b education_background of
                    None \<Rightarrow> Inr []
                  | Some education_data \<Rightarrow>
                      (case py_iter education_data of
                         None \<Rightarrow> Inr []
                       | Some entries \<Rightarrow> institutions_loop entries []))))"

section \<open>add\_english\_labels.py\<close>

text \<open>
  \<^verbatim>\<open>clean_label\<close>: the result \<open>None\<close> is Python's \<^verbatim>\<open>None\<close>. The handler catches
  \<^verbatim>\<open>ValueError\<close> and \<^verbatim>\<open>TypeError\<close>; \<^verbatim>\<open>OverflowError\<close>, which \<^verbatim>\<open>float\<close> raises on an
  integer beyond the range of a float and \<^verbatim>\<open>int\<close> raises on an infinity, is not caught.
\<close>

definition clean_label :: "builtins \<Rightarrow> py_value \<Rightarrow> error + int option" where
  "clean_label b val =
     (if pd_isna val then Inr None
      else (case py_float_of b val of
              Inl ValueError \<Rightarrow> Inr None
            | Inl TypeError \<Rightarrow> Inr None
            | Inl e \<Rightarrow> Inl e
            | Inr FNan \<Rightarrow> Inr None
            | Inr FInf \<Rightarrow> Inl OverflowError
            | Inr FNegInf \<Rightarrow> Inl OverflowError
            | Inr (FFinite num_val) \<Rightarrow>
                (let int_val = py_trunc num_val
                 in if int_val \<in> {0, 1, -1} then Inr (Some int_val) else Inr None)))"

text \<open>
  One row of the data frame when step 6 of \<^verbatim>\<open>process_author_profiles\<close> starts: the
  columns the step reads. The columns \<^verbatim>\<open>institutions_from_education\<close> and
  \<^verbatim>\<open>filtered_email_domains\<close> were written by steps 4 and 5 and hold strings. A text
  cell is \<open>None\<close> when pandas holds a missing value there. A column that the file does not
  have behaves as a column of missing values: \<^verbatim>\<open>row.get\<close> then returns the empty
  string, which every test below treats as it treats a missing value.
\<close>

record author_row =
  author_name :: string
  english_speaker :: py_value
  education_countries :: "string option"
  current_country :: "string option"
  institutions_from_education :: string
  filtered_email_domains :: string

text \<open>
  \<^verbatim>\<open>df['english_speaker'].apply(clean_label)\<close>: the first exception ends the run.
\<close>

fun clean_labels :: "builtins \<Rightarrow> py_value list \<Rightarrow> error + int option list" where
  "clean_labels b [] = Inr []"
| "clean_labels b (val # vals) =
     (case clean_label b val of
        Inl e \<Rightarrow> Inl e
      | Inr l \<Rightarrow> (case clean_labels b vals of Inl e \<Rightarrow> Inl e | Inr ls \<Rightarrow> Inr (l # ls)))"

text \<open>
  The set \<^verbatim>\<open>authors_with_labels\<close>, from the rows paired with their cleaned label.
\<close>

definition authors_with_labels :: "(author_row \<times> int option) list \<Rightarrow> string set" where
  "authors_with_labels df =
     set (map (\<lambda>(row, l). author_name row) (filter (\<lambda>(row, l). l = Some 0 \<or> l = Some 1) df))"

definition has_country_data :: "string option \<Rightarrow> bool" where
  "has_country_data existing_countries =
     (case existing_countries of
        None \<Rightarrow> False
      | Some s \<Rightarrow>
          (let countries_str = py_strip s
           in countries_str \<noteq> [] \<and> countries_str \<notin> {''nan'', ''None'', []}
              \<and> \<not> py_startswith countries_str ''{''))"

text \<open>The branch that preserves an existing label: the pair appended to the two lists.\<close>

definition preserve_row :: "author_row \<Rightarrow> int option \<Rightarrow> string option \<times> int" where
  "preserve_row row cleaned =
     (let existing_countries = education_countries row;
          has_country_data = has_country_data existing_countries;
          existing_label =
            (case cleaned of
               None \<Rightarrow> -1
             | Some l \<Rightarrow> if l \<in> {0, 1, -1} then l else -1);
          existing_label = (if \<not> has_country_data then -1 else existing_label)
      in (if has_country_data then existing_countries else None, existing_label))"

text \<open>The loop of step 3, which adds the country of each domain's top-level domain.\<close>

fun tld_pass :: "string list \<Rightarrow> string set \<Rightarrow> string set" where
  "tld_pass [] country_codes = country_codes"
| "tld_pass (domain # email_domains) country_codes =
     (case infer_country_from_tld domain of
        None \<Rightarrow> tld_pass email_domains country_codes
      | Some tld_country \<Rightarrow>
          if tld_country \<noteq> [] then tld_pass email_domains (insert tld_country country_codes)
          else tld_pass email_domains country_codes)"

text \<open>
  The loop that sets \<^verbatim>\<open>english_flag\<close>, over the country codes in the order the set
  yields them; it starts from 0 and stops at the first exempt country.
\<close>

definition dict_get :: "(string \<times> string) list \<Rightarrow> string \<Rightarrow> string" where
  "dict_get d k = (case map_of d k of None \<Rightarrow> [] | Some v \<Rightarrow> v)"

fun english_flag_loop ::
  "university_data \<Rightarrow> (string \<times> string) list \<Rightarrow> string list \<Rightarrow> int" where
  "english_flag_loop ud toefl_requirements [] = 0"
| "english_flag_loop ud toefl_requirements (code # codes) =
     (let country_name = dict_get (code_to_country_name ud) code
      in if country_name \<noteq> []
            \<and> dict_get toefl_requirements (py_lower country_name) = ''Exempt''
         then 1
         else english_flag_loop ud toefl_requirements codes)"

text \<open>The self-reported country: the trimmed text, or \<open>None\<close> when it is not valid.\<close>

definition valid_current_country :: "string option \<Rightarrow> string option" where
  "valid_current_country current_country_raw =
     (case current_country_raw of
        None \<Rightarrow> None
      | Some raw \<Rightarrow>
          (let current_country_str = py_strip raw
           in if current_country_str \<noteq> []
                 \<and> py_lower current_country_str \<notin> {''nan'', ''none'', []}
              then Some current_country_str else None))"

definition split_column :: "string \<Rightarrow> string list" where
  "split_column str = (if str \<noteq> [] then map py_strip (py_split CHR '';'' str) else [])"

text \<open>
  The country set of a row without a preserved label, before the self-reported country
  is merged in: the resolver, then step 3.
\<close>

definition resolve_countries :: "university_data \<Rightarrow> author_row \<Rightarrow> string set" where
  "resolve_countries ud row =
     (let institutions = split_column (institutions_from_education row);
          email_domains = split_column (filtered_email_domains row);
          country_codes = find_country_codes ud institutions email_domains
      in if country_codes = {} \<and> email_domains \<noteq> [] then tld_pass email_domains country_codes
         else country_codes)"

text \<open>
  The self-reported country is added to the set when the set is empty, and when it is
  not in the set yet.
\<close>

definition merge_current_country :: "string set \<Rightarrow> string option \<Rightarrow> string set" where
  "merge_current_country country_codes self_reported =
     (case self_reported of
        None \<Rightarrow> country_codes
      | Some c \<Rightarrow>
          if country_codes = {} then insert c country_codes
          else if c \<notin> country_codes then insert c country_codes
          else country_codes)"

text \<open>
  The rest of the loop body for such a row. The order in which a Python set yields its
  elements is not specified; the flag loop is run on the sorted codes, and its result
  is the same in any other order.
\<close>

definition process_row ::
  "university_data \<Rightarrow> (string \<times> string) list \<Rightarrow> author_row \<Rightarrow> string option \<times> int" where
  "process_row ud toefl_requirements row =
     (let country_codes = resolve_countries ud row;
          current_country = valid_current_country (current_country row);
          has_valid_current_country = (current_country \<noteq> None);
          countries_from_processing = (country_codes \<noteq> {});
          country_codes = merge_current_country country_codes current_country
      in if \<not> countries_from_processing \<and> \<not> has_valid_current_country then (None, -1)
         else
           (if country_codes \<noteq> {}
            then Some (py_join ''; '' (sorted_list_of_set country_codes)) else None,
            if country_codes = {} then -1
            else english_flag_loop ud toefl_requirements (sorted_list_of_set country_codes)))"

definition label_row ::
  "university_data \<Rightarrow> (string \<times> string) list \<Rightarrow> string set \<Rightarrow> author_row \<times> int option
    \<Rightarrow> string option \<times> int" where
  "label_row ud toefl_requirements with_labels rl =
     (case rl of (row, cleaned) \<Rightarrow>
        if author_name row \<in> with_labels then preserve_row row cleaned
        else process_row ud toefl_requirements row)"

text \<open>Step 7 on the two new columns, a pair for each row.\<close>

definition no_country :: "string option \<Rightarrow> bool" where
  "no_country c = (case c of None \<Rightarrow> True | Some s \<Rightarrow> s = [] \<or> py_strip s = [])"

definition final_validation :: "(string option \<times> int) list \<Rightarrow> (string option \<times> int) list" where
  "final_validation results =
     (let invalid_labels = length (filter (\<lambda>(c, l). no_country c \<and> l \<noteq> -1) results)
      in if invalid_labels > 0
         then map (\<lambda>(c, l). if no_country c then (None, -1) else (c, l)) results
         else results)"

definition update_row :: "author_row \<Rightarrow> string option \<times> int \<Rightarrow> author_row" where
  "update_row row cl =
     (case cl of (c, l) \<Rightarrow> row\<lparr>education_countries := c, english_speaker := PyInt l\<rparr>)"

text \<open>
  Steps 6 and 7 of \<^verbatim>\<open>process_author_profiles\<close>, on the data frame as it is when step 6
  starts: the data frame that the function returns, or the exception that ends it. The
  function reads the data frame from one file and writes the result to another. A later
  run on the result is a pass over the result as \<^verbatim>\<open>read_csv\<close> reads it back, which need
  not be the returned data frame: a country field \<^verbatim>\<open>NA\<close>, for one, is read as missing.
\<close>

definition process_author_profiles ::
  "builtins \<Rightarrow> university_data \<Rightarrow> (string \<times> string) list \<Rightarrow> author_row list
    \<Rightarrow> error + author_row list" where
  "process_author_profiles b ud toefl_requirements df =
     (case clean_labels b (map english_speaker df) of
        Inl e \<Rightarrow> Inl e
      | Inr cleaned \<Rightarrow>
          (let with_labels = authors_with_labels (zip df cleaned);
               results = map (label_row ud toefl_requirements with_labels) (zip df cleaned);
               results = final_validation results
           in Inr (map2 update_row df results)))"

section \<open>The notions the properties are stated with\<close>

text \<open>
  The entries of a semicolon-separated list of domains: each part trimmed, the empty
  parts left out.
\<close>

definition domain_entries :: "string \<Rightarrow> string list" where
  "domain_entries domains_str =
     filter (\<lambda>d. d \<noteq> []) (map py_strip (py_split CHR '';'' domains_str))"

text \<open>
  A fuzzy match of two names: one contains the other, and the contained one has at
  least four characters.
\<close>

definition fuzzy_accepts :: "string \<Rightarrow> string \<Rightarrow> bool" where
  "fuzzy_accepts a b = ((py_in a b \<and> length a \<ge> 4) \<or> (py_in b a \<and> length b \<ge> 4))"

text \<open>
  A country code is exempt when the table of display names maps it to a name, and the
  TOEFL table maps the lower-cased name to the requirement \<^verbatim>\<open>Exempt\<close>.
\<close>

definition exempt_code :: "university_data \<Rightarrow> (string \<times> string) list \<Rightarrow> string \<Rightarrow> bool" where
  "exempt_code ud toefl_requirements code =
     (\<exists>name. map_of (code_to_country_name ud) code = Some name \<and> name \<noteq> []
        \<and> map_of toefl_requirements (py_lower name) = Some ''Exempt'')"

text \<open>The country set of a row without a preserved label, the self-reported one merged in.\<close>

definition final_countries :: "university_data \<Rightarrow> author_row \<Rightarrow> string set" where
  "final_countries ud row =
     merge_current_country (resolve_countries ud row)
       (valid_current_country (current_country row))"

text \<open>
  What step 7 does to a pair of country field and label when some row is inconsistent;
  and the pairs that the loop of step 6 produces for a row on its own: no country and
  the label -1, or a country field and the label 0 or 1.
\<close>

definition repaired :: "string option \<times> int \<Rightarrow> string option \<times> int" where
  "repaired cl = (if no_country (fst cl) then (None, -1) else cl)"

definition well_labelled :: "string option \<times> int \<Rightarrow> bool" where
  "well_labelled cl = (cl = (None, -1) \<or> (fst cl \<noteq> None \<and> (snd cl = 0 \<or> snd cl = 1)))"

text \<open>
  The stored labels on which the cleaning raises: an integer beyond the range of a
  float, and an infinity. A data frame has finite labels when it stores none of them.
\<close>

definition overflows :: "builtins \<Rightarrow> py_value \<Rightarrow> bool" where
  "overflows b val =
     (py_float_of b val = Inl OverflowError \<or> py_float_of b val = Inr FInf
        \<or> py_float_of b val = Inr FNegInf)"

definition labels_finite :: "builtins \<Rightarrow> author_row list \<Rightarrow> bool" where
  "labels_finite b df = (\<forall>r\<in>set df. \<not> overflows b (english_speaker r))"

text \<open>
  The value of a stored label that is a number: \<open>stored_value b val q\<close> says that
  \<^verbatim>\<open>float(val)\<close> is the finite number \<open>q\<close>.
\<close>

definition stored_value :: "builtins \<Rightarrow> py_value \<Rightarrow> rat \<Rightarrow> bool" where
  "stored_value b val q = (py_float_of b val = Inr (FFinite q))"

text \<open>
  An author has a preserved label when some row of that name has a stored label that is
  cleaned to 0 or 1.
\<close>

definition has_valid_label :: "builtins \<Rightarrow> author_row list \<Rightarrow> string \<Rightarrow> bool" where
  "has_valid_label b df author =
     (\<exists>r\<in>set df. author_name r = author
        \<and> (clean_label b (english_speaker r) = Inr (Some 0)
           \<or> clean_label b (english_speaker r) = Inr (Some 1)))"

text \<open>A data frame is unlabelled when no stored label of it is cleaned to 0 or 1.\<close>

definition unlabelled :: "builtins \<Rightarrow> author_row list \<Rightarrow> bool" where
  "unlabelled b df =
     (\<forall>r\<in>set df. clean_label b (english_speaker r) \<noteq> Inr (Some 0)
        \<and> clean_label b (english_speaker r) \<noteq> Inr (Some 1))"

text \<open>The joined country field that the loop writes for a row without a preserved label.\<close>

definition joined_countries :: "university_data \<Rightarrow> author_row \<Rightarrow> string" where
  "joined_countries ud row = py_join ''; '' (sorted_list_of_set (final_countries ud row))"

section \<open>Sample data\<close>

text \<open>
  The library functions on the few strings that the examples use; a small reference
  data set; the rows of a TOEFL table.
\<close>

definition sample_builtins :: builtins where
  "sample_builtins =
     \<lparr>float_of_str = map_of [(''1'', FFinite 1), (''0.5'', FFinite (1 / 2)), (''inf'', FInf)],
      str_of_number = (\<lambda>v. ''0''),
      json_loads = map_of [(''[1]'', JArray [JInt 1]), (''[]'', JArray []), (''null'', JNull)]\<rparr>"

definition sample_universities :: university_data where
  "sample_universities =
     \<lparr>domain_to_country = [(''mit.edu'', ''US''), (''ox.ac.uk'', ''GB''), (''tum.de'', ''DE'')],
      institution_to_country =
        [(''massachusetts'', ''US''), (''oxford'', ''GB''), (''technical munich'', ''DE'')],
      code_to_country_name =
        [(''US'', ''United States''), (''GB'', ''United Kingdom''), (''DE'', ''Germany'')]\<rparr>"

text \<open>
  A directory with a Namibian university, whose country code is \<^verbatim>\<open>NA\<close>, and one whose
  only entry has no country code.
\<close>

definition namibia_universities :: university_data where
  "namibia_universities =
     \<lparr>domain_to_country = [(''unam.edu.na'', ''NA'')],
      institution_to_country = [(''namibia'', ''NA'')],
      code_to_country_name = [(''NA'', ''Namibia'')]\<rparr>"

definition uncoded_universities :: university_data where
  "uncoded_universities =
     \<lparr>domain_to_country = [(''example.org'', [])],
      institution_to_country = [(''example'', [])],
      code_to_country_name = []\<rparr>"

definition sample_toefl :: "(string \<times> string) list" where
  "sample_toefl =
     load_toefl_requirements
       [(Some ''United States'', Some ''Exempt''), (Some ''Germany'', Some ''Required''),
        (Some '' United Kingdom '', Some ''Exempt '')] []"

definition sample_row :: author_row where
  "sample_row =
     \<lparr>author_name = ''A. Author'', english_speaker = PyNone, education_countries = None,
      current_country = None, institutions_from_education = [],
      filtered_email_domains = []\<rparr>"

section \<open>Strings\<close>

text \<open>Setting bit 5 of an upper-case code point adds 32 to it.\<close>

lemma py_lower_char_add:
  "py_lower_char c =
     (let n = (of_char c :: nat)
      in if (65 \<le> n \<and> n \<le> 90) \<or> (192 \<le> n \<and> n \<le> 214) \<or> (216 \<le> n \<and> n \<le> 222)
         then char_of (n + 32) else c)"
  by (cases c) (auto simp: py_lower_char_def Let_def char_of_def bit_simps)

lemma py_lower_char_idem: "py_lower_char (py_lower_char c) = py_lower_char c"
  by (cases c) (auto simp: py_lower_char_def Let_def)

lemma py_lower_idem: "py_lower (py_lower s) = py_lower s"
  by (simp add: py_lower_def py_lower_char_idem)

lemma py_strip_empty_iff: "py_strip s = [] \<longleftrightarrow> (\<forall>c\<in>set s. py_isspace c)"
proof
  assume "py_strip s = []"
  then have all: "\<forall>x\<in>set (dropWhile py_isspace s). py_isspace x"
    by (simp add: py_strip_def dropWhile_eq_Nil_conv)
  have "dropWhile py_isspace s = []"
  proof (rule ccontr)
    assume ne: "dropWhile py_isspace s \<noteq> []"
    then have "\<not> py_isspace (hd (dropWhile py_isspace s))" by (rule hd_dropWhile)
    moreover have "hd (dropWhile py_isspace s) \<in> set (dropWhile py_isspace s)"
      using ne by simp
    ultimately show False using all by blast
  qed
  then show "\<forall>c\<in>set s. py_isspace c" by (simp add: dropWhile_eq_Nil_conv)
next
  assume "\<forall>c\<in>set s. py_isspace c"
  then show "py_strip s = []"
    by (auto simp: py_strip_def dropWhile_eq_Nil_conv dest: set_dropWhileD)
qed

lemma set_py_split: "p \<in> set (py_split sep s) \<Longrightarrow> set p \<subseteq> set s"
proof (induction s arbitrary: p)
  case Nil
  then show ?case by simp
next
  case (Cons c cs)
  show ?case
  proof (cases "c = sep")
    case True
    then show ?thesis using Cons by auto
  next
    case False
    show ?thesis
    proof (cases "py_split sep cs")
      case Nil
      then show ?thesis using Cons False by auto
    next
      case (Cons q qs)
      have "set q \<subseteq> set cs" using Cons.IH[of q] Cons by simp
      moreover have "\<forall>r\<in>set qs. set r \<subseteq> set cs" using Cons.IH Cons by simp
      ultimately show ?thesis using Cons.prems False Cons by auto
    qed
  qed
qed

lemma py_split_nosep: "sep \<notin> set s \<Longrightarrow> py_split sep s = [s]"
  by (induction s) auto

section \<open>The email domains\<close>

lemma filter_domains_loop_eq:
  "filter_domains_loop ds acc =
     acc @ map py_lower (filter (\<lambda>d. d \<noteq> [] \<and> py_lower d \<notin> COMMON_EMAIL_DOMAINS) ds)"
  by (induction ds arbitrary: acc) auto

lemma blank_entries: "py_strip s = [] \<Longrightarrow> domain_entries s = []"
  unfolding domain_entries_def filter_empty_conv
  using set_py_split py_strip_empty_iff by (auto simp: subset_iff)

text \<open>
  C9. The result of \<^verbatim>\<open>filter_email_domains\<close> is the sequence of the entries of its
  input, in their order, without the entries whose lower-cased form is a generic mail
  provider, each entry lower-cased; so every domain of the result is in lower case.
\<close>

theorem filter_email_domains_lowercased:
  "filter_email_domains s =
     map py_lower (filter (\<lambda>d. py_lower d \<notin> COMMON_EMAIL_DOMAINS) (domain_entries s))
   \<and> (\<forall>d\<in>set (filter_email_domains s). py_lower d = d)"
proof -
  have eq: "filter_email_domains s =
     map py_lower (filter (\<lambda>d. py_lower d \<notin> COMMON_EMAIL_DOMAINS) (domain_entries s))"
  proof (cases "s = [] \<or> py_strip s = []")
    case True
    then have "py_strip s = []" by (auto simp: py_strip_def)
    then show ?thesis using True by (simp add: filter_email_domains_def blank_entries)
  next
    case False
    then show ?thesis
      by (simp add: filter_email_domains_def filter_domains_loop_eq domain_entries_def
          conj_commute)
  qed
  show ?thesis unfolding eq by (auto simp: py_lower_idem)
qed

theorem filter_email_domains_lowercased_witness:
  "filter_email_domains ''MIT.edu; Gmail.com;; cs.ox.ac.UK '' = [''mit.edu'', ''cs.ox.ac.uk'']
   \<and> filter_email_domains ''MIT.edu; Gmail.com;; cs.ox.ac.UK '' =
       map py_lower (filter (\<lambda>d. py_lower d \<notin> COMMON_EMAIL_DOMAINS)
         (domain_entries ''MIT.edu; Gmail.com;; cs.ox.ac.UK ''))
   \<and> py_lower ''mit.edu'' = ''mit.edu''"
proof -
  have v: "filter_email_domains ''MIT.edu; Gmail.com;; cs.ox.ac.UK '' = [''mit.edu'', ''cs.ox.ac.uk'']"
    by (simp add: filter_email_domains_def py_lower_def py_lower_char_def py_isspace_def
        py_strip_def COMMON_EMAIL_DOMAINS_def)
  note t = filter_email_domains_lowercased [of "''MIT.edu; Gmail.com;; cs.ox.ac.UK ''"]
  have m: "''mit.edu'' \<in> set (filter_email_domains ''MIT.edu; Gmail.com;; cs.ox.ac.UK '')"
    unfolding v by simp
  show ?thesis
    by (intro conjI) (rule v, rule conjunct1 [OF t], rule bspec [OF conjunct2 [OF t] m])
qed

section \<open>The country resolver\<close>

lemma match_domains_eq:
  "match_domains ud ds cc = cc \<union> {c. \<exists>d\<in>set ds. match_domain ud d = Some c}"
  by (induction ds arbitrary: cc) (auto split: option.splits)

lemma match_institutions_eq:
  "match_institutions ud is cc = cc \<union> {c. \<exists>i\<in>set is. match_institution ud i = Some c}"
  by (induction "is" arbitrary: cc) (auto split: option.splits)

lemma tld_pass_eq:
  "tld_pass ds cc = cc \<union> {t. \<exists>d\<in>set ds. infer_country_from_tld d = Some t \<and> t \<noteq> []}"
  by (induction ds arbitrary: cc) (auto split: option.splits)

lemma finite_match_domains: "finite cc \<Longrightarrow> finite (match_domains ud ds cc)"
  by (induction ds arbitrary: cc) (auto split: option.splits)

lemma finite_match_institutions: "finite cc \<Longrightarrow> finite (match_institutions ud is cc)"
  by (induction "is" arbitrary: cc) (auto split: option.splits)

lemma finite_tld_pass: "finite cc \<Longrightarrow> finite (tld_pass ds cc)"
  by (induction ds arbitrary: cc) (auto split: option.splits)

lemma finite_find_country_codes: "finite (find_country_codes ud is ds)"
  by (simp add: find_country_codes_def finite_match_domains finite_match_institutions)

text \<open>
  C10. \<^verbatim>\<open>infer_country_from_tld\<close> returns \<^verbatim>\<open>None\<close> for a domain without a dot, so in
  \<^verbatim>\<open>find_country_codes\<close> such a domain adds exactly the code that the domain table has
  for it, and nothing when the table does not have it.
\<close>

theorem dotless_domain_no_tld:
  "CHR ''.'' \<notin> set domain \<Longrightarrow>
     infer_country_from_tld domain = None
     \<and> match_domain ud domain = map_of (domain_to_country ud) domain
     \<and> find_country_codes ud [] [domain] = set_option (map_of (domain_to_country ud) domain)"
proof -
  assume nodot: "CHR ''.'' \<notin> set domain"
  have inf: "infer_country_from_tld domain = None"
    using nodot by (simp add: infer_country_from_tld_def py_split_nosep)
  have md: "match_domain ud domain = map_of (domain_to_country ud) domain"
    by (simp add: match_domain_def inf split: option.splits)
  have "find_country_codes ud [] [domain] = set_option (map_of (domain_to_country ud) domain)"
    by (simp add: find_country_codes_def md split: option.splits)
  with inf md show ?thesis by simp
qed

theorem dotless_domain_no_tld_witness:
  "CHR ''.'' \<notin> set ''localhost''
   \<and> infer_country_from_tld ''localhost'' = None
   \<and> match_domain sample_universities ''localhost'' =
       map_of (domain_to_country sample_universities) ''localhost''
   \<and> find_country_codes sample_universities [] [''localhost''] =
       set_option (map_of (domain_to_country sample_universities) ''localhost'')"
proof -
  have h: "CHR ''.'' \<notin> set ''localhost''" by simp
  show ?thesis
    by (rule conjI [OF h dotless_domain_no_tld [OF h]])
qed

text \<open>
  C8. When \<^verbatim>\<open>find_country_codes\<close> returns the empty set, the loop of step 3 over the
  same domains adds no country code; so the country set after step 3 is the one that
  \<^verbatim>\<open>find_country_codes\<close> returned.
\<close>

theorem tld_pass_redundant:
  "(find_country_codes ud institutions email_domains = {} \<longrightarrow> tld_pass email_domains {} = {})
   \<and> resolve_countries ud row =
       find_country_codes ud (split_column (institutions_from_education row))
         (split_column (filtered_email_domains row))"
proof -
  have step: "tld_pass ds {} = {}" if "find_country_codes ud is ds = {}" for "is" ds
  proof -
    have none: "match_domain ud d = None" if "d \<in> set ds" for d
    proof (cases "match_domain ud d")
      case (Some c)
      then have "c \<in> find_country_codes ud is ds"
        using that by (auto simp: find_country_codes_def match_domains_eq)
      then show ?thesis using \<open>find_country_codes ud is ds = {}\<close> by simp
    qed simp
    have "infer_country_from_tld d \<noteq> Some t \<or> t = []" if "d \<in> set ds" for d t
      using none [OF that]
      by (auto simp: match_domain_def split: option.splits if_splits)
    then show ?thesis by (auto simp: tld_pass_eq)
  qed
  show ?thesis using step by (auto simp: resolve_countries_def Let_def)
qed

theorem tld_pass_redundant_witness:
  "find_country_codes sample_universities [] [''example.com''] = {}
   \<and> tld_pass [''example.com''] {} = {}
   \<and> resolve_countries sample_universities
        (sample_row\<lparr>filtered_email_domains := ''example.com''\<rparr>) =
      find_country_codes sample_universities
        (split_column (institutions_from_education
           (sample_row\<lparr>filtered_email_domains := ''example.com''\<rparr>)))
        (split_column (filtered_email_domains
           (sample_row\<lparr>filtered_email_domains := ''example.com''\<rparr>)))"
proof -
  have e: "find_country_codes sample_universities [] [''example.com''] = {}"
    by (simp add: find_country_codes_def match_domain_def sample_universities_def
        infer_country_from_tld_def TLD_TO_COUNTRY_def)
  note t = tld_pass_redundant [of sample_universities "[]" "[''example.com'']"
      "sample_row\<lparr>filtered_email_domains := ''example.com''\<rparr>"]
  show ?thesis
    by (intro conjI) (rule e, rule mp [OF conjunct1 [OF t] e], rule conjunct2 [OF t])
qed

section \<open>Fuzzy institution matching\<close>

lemma fuzzy_scan_find:
  "fuzzy_scan n tbl =
     map_option snd (find (\<lambda>kc. 3 \<le> length (fst kc) \<and> fuzzy_accepts n (fst kc)) tbl)"
proof (induction tbl)
  case Nil
  show ?case by simp
next
  case (Cons kc tbl)
  obtain k c where kc: "kc = (k, c)" by (cases kc)
  show ?case
    unfolding kc using Cons.IH by (auto simp: fuzzy_accepts_def)
qed

lemma fuzzy_scan_index:
  "fuzzy_scan n tbl = Some c \<longleftrightarrow>
     (\<exists>i<length tbl. snd (tbl ! i) = c
        \<and> 3 \<le> length (fst (tbl ! i)) \<and> fuzzy_accepts n (fst (tbl ! i))
        \<and> (\<forall>j<i. \<not> (3 \<le> length (fst (tbl ! j)) \<and> fuzzy_accepts n (fst (tbl ! j)))))"
proof -
  let ?P = "\<lambda>kc. 3 \<le> length (fst kc) \<and> fuzzy_accepts n (fst kc)"
  have "fuzzy_scan n tbl = Some c \<longleftrightarrow> (\<exists>x. find ?P tbl = Some x \<and> snd x = c)"
    by (auto simp: fuzzy_scan_find)
  also have "\<dots> \<longleftrightarrow> (\<exists>i<length tbl. ?P (tbl ! i) \<and> snd (tbl ! i) = c
                        \<and> (\<forall>j<i. \<not> ?P (tbl ! j)))"
    unfolding find_Some_iff by blast
  finally show ?thesis by blast
qed

text \<open>
  C5. In \<^verbatim>\<open>find_country_codes\<close> the institutions add to the country set the codes that
  they match, each institution at most one, and the email domains add theirs. For an
  institution whose normalized name is \<open>n\<close>, and the table \<open>tbl\<close> of institution names in
  its order: an exact hit on \<open>n\<close> gives the code of the hit, whatever a fuzzy scan would
  find; without an exact hit the institution adds the code \<open>c\<close> exactly when \<open>n\<close> has at
  least three characters and \<open>c\<close> is the code of the first key of the table that has at
  least three characters and that \<open>n\<close> matches fuzzily: one of the two contains the
  other, and the contained one has at least four characters.
\<close>

theorem institution_match_rule:
  assumes "n = normalize_institution_name institution"
    and "tbl = institution_to_country ud"
  shows "(n \<noteq> [] \<and> map_of tbl n = Some c \<longrightarrow> match_institution ud institution = Some c)
    \<and> (map_of tbl n = None \<longrightarrow>
         (match_institution ud institution = Some c \<longleftrightarrow>
            3 \<le> length n
            \<and> (\<exists>i<length tbl. snd (tbl ! i) = c
                 \<and> 3 \<le> length (fst (tbl ! i)) \<and> fuzzy_accepts n (fst (tbl ! i))
                 \<and> (\<forall>j<i. \<not> (3 \<le> length (fst (tbl ! j))
                              \<and> fuzzy_accepts n (fst (tbl ! j)))))))
    \<and> (fuzzy_accepts n k \<longleftrightarrow>
         (py_in n k \<and> 4 \<le> length n) \<or> (py_in k n \<and> 4 \<le> length k))
    \<and> find_country_codes ud [institution] [] = set_option (match_institution ud institution)
    \<and> find_country_codes ud institutions email_domains =
         {c. \<exists>i\<in>set institutions. match_institution ud i = Some c}
         \<union> {c. \<exists>d\<in>set email_domains. match_domain ud d = Some c}
    \<and> (n \<noteq> [] \<and> map_of tbl n = Some c \<longrightarrow> find_country_codes ud [institution] [] = {c})
    \<and> (map_of tbl n = None \<longrightarrow>
         (c \<in> find_country_codes ud [institution] [] \<longleftrightarrow>
            3 \<le> length n
            \<and> (\<exists>i<length tbl. snd (tbl ! i) = c
                 \<and> 3 \<le> length (fst (tbl ! i)) \<and> fuzzy_accepts n (fst (tbl ! i))
                 \<and> (\<forall>j<i. \<not> (3 \<le> length (fst (tbl ! j))
                              \<and> fuzzy_accepts n (fst (tbl ! j)))))))"
proof -
  have exact: "match_institution ud institution = Some c"
    if "n \<noteq> [] \<and> map_of tbl n = Some c"
    using that assms by (simp add: match_institution_def)
  have fuzzy: "match_institution ud institution = Some c \<longleftrightarrow>
            3 \<le> length n
            \<and> (\<exists>i<length tbl. snd (tbl ! i) = c
                 \<and> 3 \<le> length (fst (tbl ! i)) \<and> fuzzy_accepts n (fst (tbl ! i))
                 \<and> (\<forall>j<i. \<not> (3 \<le> length (fst (tbl ! j))
                              \<and> fuzzy_accepts n (fst (tbl ! j)))))"
    if none: "map_of tbl n = None"
  proof -
    have "match_institution ud institution =
            (if 3 \<le> length n then fuzzy_scan n tbl else None)"
      using assms none by (auto simp: match_institution_def Let_def)
    then show ?thesis by (simp add: fuzzy_scan_index)
  qed
  have accepts: "fuzzy_accepts n k \<longleftrightarrow>
         (py_in n k \<and> 4 \<le> length n) \<or> (py_in k n \<and> 4 \<le> length k)"
    by (simp add: fuzzy_accepts_def)
  have single: "find_country_codes ud [institution] [] =
      set_option (match_institution ud institution)"
    by (simp add: find_country_codes_def split: option.splits)
  have whole: "find_country_codes ud institutions email_domains =
         {c. \<exists>i\<in>set institutions. match_institution ud i = Some c}
         \<union> {c. \<exists>d\<in>set email_domains. match_domain ud d = Some c}"
    unfolding find_country_codes_def match_domains_eq match_institutions_eq by simp
  have exact': "find_country_codes ud [institution] [] = {c}"
    if "n \<noteq> [] \<and> map_of tbl n = Some c"
    unfolding single using exact [OF that] by simp
  have mem: "c \<in> find_country_codes ud [institution] [] \<longleftrightarrow>
      match_institution ud institution = Some c"
    unfolding single by (cases "match_institution ud institution") auto
  show ?thesis
    unfolding mem using exact fuzzy accepts single whole exact' by blast
qed

lemma normalize_oxford_press:
  "normalize_institution_name ''Oxford University Press'' = ''oxford press''"
  by (simp add: normalize_institution_name_def py_lower_def py_lower_char_def
      words_to_remove_def py_isword_def py_isspace_def py_strip_def)

lemma normalize_oxford:
  "normalize_institution_name ''University of Oxford'' = ''oxford''"
  by (simp add: normalize_institution_name_def py_lower_def py_lower_char_def
      words_to_remove_def py_isword_def py_isspace_def py_strip_def)

theorem institution_match_rule_witness:
  "match_institution sample_universities ''Oxford University Press'' = Some ''GB''
   \<and> map_of (institution_to_country sample_universities) ''oxford press'' = None
   \<and> 3 \<le> length ''oxford press''
   \<and> (\<exists>i<length (institution_to_country sample_universities).
         snd (institution_to_country sample_universities ! i) = ''GB''
         \<and> fuzzy_accepts ''oxford press'' (fst (institution_to_country sample_universities ! i)))
   \<and> find_country_codes sample_universities [''Oxford University Press''] [] = {''GB''}
   \<and> map_of (institution_to_country sample_universities) ''oxford'' = Some ''GB''
   \<and> find_country_codes sample_universities [''University of Oxford''] [] = {''GB''}"
proof -
  have hit: "''oxford'' \<noteq> []
      \<and> map_of (institution_to_country sample_universities) ''oxford'' = Some ''GB''"
    by (simp add: sample_universities_def)
  note e = institution_match_rule [OF normalize_oxford [symmetric] refl,
      of sample_universities "''GB''"]
  have exact: "find_country_codes sample_universities [''University of Oxford''] [] = {''GB''}"
    by (rule e [THEN conjunct2, THEN conjunct2, THEN conjunct2, THEN conjunct2,
          THEN conjunct2, THEN conjunct1, THEN mp, OF hit])
  have none: "map_of (institution_to_country sample_universities) ''oxford press'' = None"
    by (simp add: sample_universities_def)
  have m: "match_institution sample_universities ''Oxford University Press'' = Some ''GB''"
    by (simp add: match_institution_def normalize_oxford_press sample_universities_def
        py_in_def sublist_code(3))
  note r = institution_match_rule [OF normalize_oxford_press [symmetric] refl,
      of sample_universities "''GB''"]
  note r2 = r [THEN conjunct2, THEN conjunct1, THEN mp, OF none]
  note r4 = r [THEN conjunct2, THEN conjunct2, THEN conjunct2, THEN conjunct1]
  from r2 m have
    "3 \<le> length ''oxford press''
     \<and> (\<exists>i<length (institution_to_country sample_universities).
          snd (institution_to_country sample_universities ! i) = ''GB''
          \<and> 3 \<le> length (fst (institution_to_country sample_universities ! i))
          \<and> fuzzy_accepts ''oxford press''
              (fst (institution_to_country sample_universities ! i))
          \<and> (\<forall>j<i. \<not> (3 \<le> length (fst (institution_to_country sample_universities ! j))
                \<and> fuzzy_accepts ''oxford press''
                    (fst (institution_to_country sample_universities ! j)))))"
    by blast
  moreover have "find_country_codes sample_universities [''Oxford University Press''] []
      = {''GB''}"
    using r4 m by simp
  ultimately show ?thesis using none m hit exact by blast
qed

section \<open>The English speaker flag\<close>

lemma exempt_code_get:
  "exempt_code ud toefl code \<longleftrightarrow>
     dict_get (code_to_country_name ud) code \<noteq> []
     \<and> dict_get toefl (py_lower (dict_get (code_to_country_name ud) code)) = ''Exempt''"
  by (auto simp: exempt_code_def dict_get_def split: option.splits)

lemma english_flag_loop_eq:
  "english_flag_loop ud toefl codes =
     (if \<exists>code\<in>set codes. exempt_code ud toefl code then 1 else 0)"
  by (induction codes) (auto simp: exempt_code_get Let_def)

lemma finite_resolve_countries: "finite (resolve_countries ud row)"
  by (simp add: resolve_countries_def Let_def finite_find_country_codes finite_tld_pass)

lemma finite_final_countries: "finite (final_countries ud row)"
  by (simp add: final_countries_def merge_current_country_def finite_resolve_countries
      split: option.splits)

lemma final_countries_empty:
  "final_countries ud row = {} \<longleftrightarrow>
     resolve_countries ud row = {} \<and> valid_current_country (current_country row) = None"
  by (auto simp: final_countries_def merge_current_country_def split: option.splits)

lemma process_row_eq:
  "process_row ud toefl row =
     (if final_countries ud row = {} then (None, -1)
      else (Some (py_join ''; '' (sorted_list_of_set (final_countries ud row))),
            if \<exists>code\<in>final_countries ud row. exempt_code ud toefl code then 1 else 0))"
proof (cases "final_countries ud row = {}")
  case True
  then show ?thesis
    using final_countries_empty [of ud row] by (simp add: process_row_def Let_def)
next
  case False
  have "\<not> (resolve_countries ud row = {}
            \<and> valid_current_country (current_country row) = None)"
    using False final_countries_empty [of ud row] by simp
  then show ?thesis
    using False finite_final_countries [of ud row]
    by (auto simp: process_row_def Let_def final_countries_def [symmetric]
        english_flag_loop_eq)
qed

lemma sample_toefl_eq:
  "sample_toefl =
     [(''united states'', ''Exempt''), (''germany'', ''Required''),
      (''united kingdom'', ''Exempt'')]"
  by (simp add: sample_toefl_def or_empty_def py_lower_def py_lower_char_def
      py_isspace_def py_strip_def)

lemma sample_final_countries:
  "final_countries sample_universities
     (sample_row\<lparr>filtered_email_domains := ''mit.edu; tum.de''\<rparr>) = {''DE'', ''US''}"
  by (simp add: final_countries_def merge_current_country_def valid_current_country_def
      resolve_countries_def split_column_def find_country_codes_def match_domain_def
      sample_row_def sample_universities_def py_strip_def py_isspace_def)

section \<open>The education background\<close>

lemma extract_institutions_no_signal:
  "extract_institutions_from_education b PyNone = Inr []"
  "extract_institutions_from_education b (PyFloat FNan) = Inr []"
  "py_strip s = [] \<Longrightarrow> extract_institutions_from_education b (PyStr s) = Inr []"
  "json_loads b s = None \<Longrightarrow> extract_institutions_from_education b (PyStr s) = Inr []"
  by (simp_all add: extract_institutions_from_education_def)

lemma institutions_loop_objects:
  "institutions_loop (map JObject kvss) acc =
     Inr (acc @ filter py_truthy
            (map (\<lambda>kvs. case map_of kvs ''institution'' of None \<Rightarrow> JStr [] | Some v \<Rightarrow> v) kvss))"
  by (induction kvss arbitrary: acc) (auto split: option.splits)

lemma institutions_loop_raises:
  "\<forall>kvs. entry \<noteq> JObject kvs \<Longrightarrow> institutions_loop (entry # entries) acc = Inl AttributeError"
  by (cases entry) auto

text \<open>
  C4. The function does return the empty list for a missing, blank or unparseable
  value, and it skips the entries with a false institution; but it does raise: when the
  text parses to a list whose first entry is not an object, \<^verbatim>\<open>entry.get\<close> raises
  \<^verbatim>\<open>AttributeError\<close>, which the handler does not catch.
\<close>

theorem extract_institutions_raises:
  assumes "json_loads b s = Some (JArray (entry # entries))"
    and "\<forall>kvs. entry \<noteq> JObject kvs"
    and "py_strip s \<noteq> []"
  shows "extract_institutions_from_education b (PyStr s) = Inl AttributeError"
proof -
  have "s \<noteq> []" using assms(3) by (auto simp: py_strip_def)
  then show ?thesis
    using assms(1,3)
    by (simp add: extract_institutions_from_education_def
        institutions_loop_raises [OF assms(2)] del: institutions_loop.simps)
qed

theorem extract_institutions_raises_witness:
  "json_loads sample_builtins ''[1]'' = Some (JArray [JInt 1])
   \<and> py_strip ''[1]'' \<noteq> []
   \<and> extract_institutions_from_education sample_builtins (PyStr ''[1]'') = Inl AttributeError"
proof -
  have l: "json_loads sample_builtins ''[1]'' = Some (JArray [JInt 1])"
    by (simp add: sample_builtins_def)
  have o: "\<forall>kvs. JInt 1 \<noteq> JObject kvs" by simp
  have n: "py_strip ''[1]'' \<noteq> []" by (simp add: py_strip_def py_isspace_def)
  show ?thesis
    by (intro conjI) (rule l, rule n, rule extract_institutions_raises [OF l o n])
qed

section \<open>Cleaning the stored labels\<close>

lemma bitlen_le_53: "\<bar>n\<bar> < 2 ^ 53 \<Longrightarrow> bitlen \<bar>n\<bar> \<le> 53"
proof (cases "\<bar>n\<bar> > 0")
  case True
  assume a: "\<bar>n\<bar> < 2 ^ 53"
  from bitlen_bounds [OF True] a have "(2::int) ^ nat (bitlen \<bar>n\<bar> - 1) < 2 ^ 53" by linarith
  then have "nat (bitlen \<bar>n\<bar> - 1) < 53" by (rule power_less_imp_less_exp [rotated]) simp
  then show ?thesis by linarith
next
  case False
  then have "\<bar>n\<bar> = 0" by simp
  then show ?thesis by simp
qed

lemma round_to_double_small: "\<bar>n\<bar> < 2 ^ 53 \<Longrightarrow> round_to_double n = n"
proof -
  assume a: "\<bar>n\<bar> < 2 ^ 53"
  then have "nat (bitlen \<bar>n\<bar> - 53) = 0" using bitlen_le_53 [OF a] by simp
  then show ?thesis by (simp add: round_to_double_def Let_def mult_sgn_abs)
qed

lemma float_of_int_small: "\<bar>n\<bar> < 2 ^ 53 \<Longrightarrow> float_of_int n = Inr (FFinite (of_int n))"
proof -
  assume a: "\<bar>n\<bar> < 2 ^ 53"
  have "(2::int) ^ 53 \<le> 2 ^ 1024" by (rule power_increasing) simp_all
  with a have "\<not> \<bar>n\<bar> \<ge> 2 ^ 1024" by linarith
  then show ?thesis
    unfolding float_of_int_def round_to_double_small [OF a] by (simp only: if_False)
qed


lemma py_float_of_label:
  "n = 0 \<or> n = 1 \<or> n = -1 \<Longrightarrow> py_float_of b (PyInt n) = Inr (FFinite (of_int n))"
  by (auto simp: py_float_of_def float_of_int_small)

lemma py_float_of_simps:
  "py_float_of b (PyInt 0) = Inr (FFinite 0)"
  "py_float_of b (PyInt 1) = Inr (FFinite 1)"
  "py_float_of b (PyInt (-1)) = Inr (FFinite (-1))"
  "py_float_of b PyNone = Inl TypeError"
  "py_float_of b (PyFloat f) = Inr f"
  "py_float_of b (PyStr s) = (case float_of_str b s of None \<Rightarrow> Inl ValueError | Some f \<Rightarrow> Inr f)"
  using py_float_of_label [of 0 b] py_float_of_label [of 1 b] py_float_of_label [of "-1" b]
  by (simp_all add: py_float_of_def)

lemma py_trunc_of_int: "py_trunc (of_int n) = n"
  by (simp add: py_trunc_def)


lemma authors_with_labels_iff:
  "author \<in> authors_with_labels df \<longleftrightarrow>
     (\<exists>rl\<in>set df. author_name (fst rl) = author \<and> (snd rl = Some 0 \<or> snd rl = Some 1))"
  by (force simp: authors_with_labels_def)


lemma py_float_of_error:
  "py_float_of b val = Inl e \<Longrightarrow> e = OverflowError \<or> e = ValueError \<or> e = TypeError"
  by (auto simp: py_float_of_def float_of_int_def split: py_value.splits option.splits if_splits)


lemma clean_label_value:
  assumes "\<not> overflows b val"
  shows "\<exists>l. clean_label b val = Inr l
     \<and> (l = None \<or> l = Some 0 \<or> l = Some 1 \<or> l = Some (-1))
     \<and> (l = None \<longleftrightarrow>
          pd_isna val \<or> py_float_of b val = Inl ValueError
          \<or> py_float_of b val = Inl TypeError \<or> py_float_of b val = Inr FNan
          \<or> (\<exists>q. stored_value b val q \<and> py_trunc q \<notin> {0, 1, -1}))
     \<and> (\<forall>q. stored_value b val q \<and> py_trunc q \<in> {0, 1, -1} \<longrightarrow> l = Some (py_trunc q))"
proof (cases "pd_isna val")
  case True
  then have "\<forall>q. \<not> stored_value b val q"
    by (auto simp: pd_isna_def stored_value_def py_float_of_def)
  then show ?thesis using True by (simp add: clean_label_def)
next
  case False
  show ?thesis
  proof (cases "py_float_of b val")
    case (Inl e)
    then have "e = ValueError \<or> e = TypeError"
      using assms py_float_of_error [OF Inl] by (auto simp: overflows_def)
    then show ?thesis
      using False Inl by (auto simp: clean_label_def stored_value_def)
  next
    case (Inr f)
    show ?thesis
    proof (cases f)
      case FNan
      then show ?thesis
        using False Inr by (simp add: clean_label_def stored_value_def)
    next
      case FInf
      then show ?thesis using assms Inr by (simp add: overflows_def)
    next
      case FNegInf
      then show ?thesis using assms Inr by (simp add: overflows_def)
    next
      case (FFinite q)
      then show ?thesis
        using False Inr by (auto simp: clean_label_def stored_value_def Let_def)
    qed
  qed
qed

lemma clean_label_returns: "\<not> overflows b val \<Longrightarrow> \<exists>l. clean_label b val = Inr l"
  using clean_label_value [of b val] by blast

lemma clean_label_int:
  assumes "n = 0 \<or> n = 1 \<or> n = -1"
  shows "clean_label b (PyInt n) = Inr (Some n)"
proof -
  have "clean_label b (PyInt n) =
          (let int_val = py_trunc (of_int n)
           in if int_val \<in> {0, 1, -1} then Inr (Some int_val) else Inr None)"
    unfolding clean_label_def py_float_of_label [OF assms, of b] by (simp add: pd_isna_def)
  then show ?thesis using assms unfolding py_trunc_of_int Let_def by auto
qed

lemma clean_labels_Inr:
  "clean_labels b vals = Inr ls \<Longrightarrow>
     length ls = length vals \<and> (\<forall>i<length vals. clean_label b (vals ! i) = Inr (ls ! i))"
proof (induction vals arbitrary: ls)
  case Nil
  then show ?case by auto
next
  case (Cons v vs)
  from Cons.prems obtain l ls' where l: "clean_label b v = Inr l"
    and ls': "clean_labels b vs = Inr ls'" and ls: "ls = l # ls'"
    by (auto split: sum.splits)
  show ?case
    using Cons.IH [OF ls'] l by (simp add: ls All_less_Suc2)
qed

lemma clean_labels_returns:
  "labels_finite b df \<Longrightarrow> \<exists>cleaned. clean_labels b (map english_speaker df) = Inr cleaned"
proof (induction df)
  case Nil
  show ?case by simp
next
  case (Cons r df)
  then have "labels_finite b df" by (simp add: labels_finite_def)
  then obtain cleaned where "clean_labels b (map english_speaker df) = Inr cleaned"
    using Cons.IH by blast
  moreover obtain l where "clean_label b (english_speaker r) = Inr l"
    using Cons.prems clean_label_returns [of b "english_speaker r"]
    by (auto simp: labels_finite_def)
  ultimately show ?case by simp
qed


lemma process_Inr:
  assumes "clean_labels b (map english_speaker df) = Inr cleaned"
  shows "process_author_profiles b ud toefl df =
     Inr (map2 update_row df
            (final_validation
               (map (label_row ud toefl (authors_with_labels (zip df cleaned)))
                  (zip df cleaned))))"
  by (simp add: process_author_profiles_def assms Let_def)

lemma in_authors_with_labels:
  assumes "length cleaned = length df" and "i < length df"
    and "cleaned ! i = Some 0 \<or> cleaned ! i = Some 1"
  shows "author_name (df ! i) \<in> authors_with_labels (zip df cleaned)"
proof -
  have "(df ! i, cleaned ! i) \<in> set (zip df cleaned)"
    using assms(1,2) by (auto simp: set_zip)
  then show ?thesis
    using assms(3) by (force simp: authors_with_labels_def)
qed

lemma authors_with_labels_index:
  assumes "length cleaned = length df" and "author \<in> authors_with_labels (zip df cleaned)"
  shows "\<exists>j<length df. author_name (df ! j) = author
            \<and> (cleaned ! j = Some 0 \<or> cleaned ! j = Some 1)"
  using assms by (auto simp: authors_with_labels_def set_zip)



lemma singleton_nth: "length xs = 1 \<Longrightarrow> xs ! 0 = x \<Longrightarrow> xs = [x]"
  by (cases xs) auto




section \<open>The pass over the data frame\<close>

lemma repair_fun: "(\<lambda>(c, l). if no_country c then (None, -1) else (c, l)) = repaired"
  by (auto simp: repaired_def fun_eq_iff)

lemma final_validation_eq:
  "final_validation res =
     (if \<exists>x\<in>set res. no_country (fst x) \<and> snd x \<noteq> -1 then map repaired res else res)"
proof -
  have *: "(0 < length (filter (\<lambda>(c, l). no_country c \<and> l \<noteq> -1) res))
          = (\<exists>x\<in>set res. no_country (fst x) \<and> snd x \<noteq> -1)"
    by (force simp: filter_empty_conv)
  show ?thesis
    unfolding final_validation_def Let_def repair_fun * by (rule refl)
qed

lemma length_final_validation: "length (final_validation res) = length res"
  by (simp add: final_validation_eq)

lemma repaired_fixed: "x = (None, -1) \<or> \<not> no_country (fst x) \<Longrightarrow> repaired x = x"
  by (auto simp: repaired_def no_country_def)

lemma repaired_idem: "repaired (repaired x) = repaired x"
  by (auto simp: repaired_def no_country_def)

lemma final_validation_nth_fixed:
  "i < length res \<Longrightarrow> repaired (res ! i) = res ! i \<Longrightarrow> final_validation res ! i = res ! i"
  by (simp add: final_validation_eq)

lemma well_labelled_repaired: "well_labelled x \<Longrightarrow> well_labelled (repaired x)"
  by (auto simp: well_labelled_def repaired_def)

lemma well_labelled_not_invalid:
  "well_labelled x \<Longrightarrow> \<not> (no_country (fst x) \<and> snd x \<noteq> -1) \<Longrightarrow> repaired x = x"
  by (auto simp: well_labelled_def repaired_def)

lemma final_validation_well:
  assumes "\<forall>x\<in>set res. well_labelled x"
  shows "final_validation res = map repaired res"
proof (cases "\<exists>x\<in>set res. no_country (fst x) \<and> snd x \<noteq> -1")
  case True
  then show ?thesis by (simp add: final_validation_eq)
next
  case False
  then have "\<forall>x\<in>set res. repaired x = x"
    using assms well_labelled_not_invalid by blast
  then have "map repaired res = res" by (simp add: map_idI)
  then show ?thesis using False by (simp add: final_validation_eq)
qed


lemma has_country_data_iff:
  "has_country_data v \<longleftrightarrow>
     (\<exists>s. v = Some s \<and> py_strip s \<noteq> [] \<and> py_strip s \<noteq> ''nan'' \<and> py_strip s \<noteq> ''None''
        \<and> \<not> prefix ''{'' (py_strip s))"
  by (cases v) (auto simp: has_country_data_def Let_def py_startswith_def)

lemma has_country_data_country: "has_country_data v \<Longrightarrow> \<not> no_country v"
  by (auto simp: has_country_data_iff no_country_def py_strip_def)

lemma preserve_row_eq:
  "l = 0 \<or> l = 1 \<Longrightarrow>
     preserve_row row (Some l) =
       (if has_country_data (education_countries row) then (education_countries row, l)
        else (None, -1))"
  by (auto simp: preserve_row_def Let_def)

lemma preserve_row_no_data:
  "\<not> has_country_data (education_countries row) \<Longrightarrow> preserve_row row cleaned = (None, -1)"
  by (simp add: preserve_row_def Let_def)


lemma process_row_well: "well_labelled (process_row ud toefl row)"
  by (simp add: process_row_eq well_labelled_def)

lemma map2_update_nth:
  "i < length df \<Longrightarrow> length res = length df
     \<Longrightarrow> map2 update_row df res ! i = update_row (df ! i) (res ! i)"
  by simp

lemma process_InrD:
  assumes "process_author_profiles b ud toefl df = Inr out"
  shows "\<exists>cleaned. clean_labels b (map english_speaker df) = Inr cleaned
     \<and> length cleaned = length df
     \<and> (\<forall>j<length df. clean_label b (english_speaker (df ! j)) = Inr (cleaned ! j))
     \<and> out = map2 update_row df
               (final_validation
                  (map (label_row ud toefl (authors_with_labels (zip df cleaned)))
                     (zip df cleaned)))"
proof (cases "clean_labels b (map english_speaker df)")
  case (Inl e)
  then show ?thesis using assms by (simp add: process_author_profiles_def)
next
  case (Inr cleaned)
  then show ?thesis
    using assms process_Inr [OF Inr, of ud toefl] clean_labels_Inr [OF Inr] by auto
qed

lemma pass_length: "process_author_profiles b ud toefl df = Inr out \<Longrightarrow> length out = length df"
  using process_InrD [of b ud toefl df out] by (auto simp: length_final_validation)

lemma final_validation_nth_well:
  assumes "i < length res" and "well_labelled (res ! i)"
  shows "final_validation res ! i = repaired (res ! i)"
proof (cases "\<exists>x\<in>set res. no_country (fst x) \<and> snd x \<noteq> -1")
  case True
  then show ?thesis using assms(1) by (simp add: final_validation_eq)
next
  case False
  then have "\<not> (no_country (fst (res ! i)) \<and> snd (res ! i) \<noteq> -1)"
    using assms(1) nth_mem by blast
  then have "repaired (res ! i) = res ! i"
    by (rule well_labelled_not_invalid [OF assms(2)])
  moreover have "final_validation res = res"
    unfolding final_validation_eq by (rule if_not_P [OF False])
  ultimately show ?thesis by simp
qed


lemma clean_label_stored:
  assumes "stored_value b val (of_int l)" and "l = 0 \<or> l = 1 \<or> l = -1"
  shows "clean_label b val = Inr (Some l)"
proof -
  have "\<not> overflows b val"
    using assms(1) by (simp add: stored_value_def overflows_def)
  from clean_label_value [OF this] obtain c where c: "clean_label b val = Inr c"
    and q: "\<forall>q. stored_value b val q \<and> py_trunc q \<in> {0, 1, -1} \<longrightarrow> c = Some (py_trunc q)"
    by blast
  have "c = Some l"
    using q [rule_format, of "of_int l"] assms by (auto simp: py_trunc_of_int)
  then show ?thesis using c by simp
qed

lemma stored_value_int: "l = 0 \<or> l = 1 \<or> l = -1 \<Longrightarrow> stored_value b (PyInt l) (of_int l)"
  by (simp add: stored_value_def py_float_of_label)

text \<open>The row that the pass returns for a row of the preserved branch with a valid label.\<close>

lemma preserved_row_result:
  assumes run: "process_author_profiles b ud toefl df = Inr out" and i: "i < length df"
    and ci: "clean_label b (english_speaker (df ! i)) = Inr (Some l)" and l: "l = 0 \<or> l = 1"
  shows "out ! i =
         (if has_country_data (education_countries (df ! i))
          then (df ! i)\<lparr>english_speaker := PyInt l\<rparr>
          else (df ! i)\<lparr>education_countries := None, english_speaker := PyInt (-1)\<rparr>)"
proof -
  from process_InrD [OF run] obtain cleaned where len: "length cleaned = length df"
    and nth: "\<forall>j<length df. clean_label b (english_speaker (df ! j)) = Inr (cleaned ! j)"
    and out: "out = map2 update_row df
               (final_validation
                  (map (label_row ud toefl (authors_with_labels (zip df cleaned)))
                     (zip df cleaned)))"
    by blast
  have ci': "cleaned ! i = Some l" using nth i ci by auto
  let ?awl = "authors_with_labels (zip df cleaned)"
  let ?res = "map (label_row ud toefl ?awl) (zip df cleaned)"
  let ?x = "preserve_row (df ! i) (Some l)"
  have mem: "author_name (df ! i) \<in> ?awl"
    using in_authors_with_labels [OF len i] ci' l by auto
  have res_i: "?res ! i = ?x"
    using i len mem ci' by (simp add: label_row_def)
  have x: "?x = (if has_country_data (education_countries (df ! i))
                 then (education_countries (df ! i), l) else (None, -1))"
    by (rule preserve_row_eq [OF l])
  have "repaired ?x = ?x"
    by (rule repaired_fixed) (auto simp: x has_country_data_country)
  then have fv: "final_validation ?res ! i = ?x"
    using final_validation_nth_fixed [of i ?res] res_i i len by simp
  have "out ! i = update_row (df ! i) ?x"
    unfolding out
    using map2_update_nth [of i df "final_validation ?res"] i len fv
    by (simp add: length_final_validation)
  then show ?thesis by (simp add: x update_row_def)
qed

text \<open>
  The row that the pass returns for a row of the other branch: no row of its author has
  a stored label that is cleaned to 0 or 1.
\<close>

lemma fresh_row_result:
  assumes run: "process_author_profiles b ud toefl df = Inr out" and i: "i < length df"
    and none: "\<forall>j<length df. author_name (df ! j) = author_name (df ! i) \<longrightarrow>
        clean_label b (english_speaker (df ! j)) \<noteq> Inr (Some 0)
        \<and> clean_label b (english_speaker (df ! j)) \<noteq> Inr (Some 1)"
  shows "out ! i = update_row (df ! i) (repaired (process_row ud toefl (df ! i)))"
proof -
  from process_InrD [OF run] obtain cleaned where len: "length cleaned = length df"
    and nth: "\<forall>j<length df. clean_label b (english_speaker (df ! j)) = Inr (cleaned ! j)"
    and out: "out = map2 update_row df
               (final_validation
                  (map (label_row ud toefl (authors_with_labels (zip df cleaned)))
                     (zip df cleaned)))"
    by blast
  let ?awl = "authors_with_labels (zip df cleaned)"
  let ?res = "map (label_row ud toefl ?awl) (zip df cleaned)"
  have "author_name (df ! i) \<notin> ?awl"
  proof
    assume "author_name (df ! i) \<in> ?awl"
    from authors_with_labels_index [OF len this] obtain j where "j < length df"
      "author_name (df ! j) = author_name (df ! i)" "cleaned ! j = Some 0 \<or> cleaned ! j = Some 1"
      by blast
    then show False using none nth by auto
  qed
  then have res_i: "?res ! i = process_row ud toefl (df ! i)"
    using i len by (simp add: label_row_def)
  have fv: "final_validation ?res ! i = repaired (process_row ud toefl (df ! i))"
    using final_validation_nth_well [of i ?res] res_i i len process_row_well [of ud toefl "df ! i"]
    by simp
  show ?thesis
    unfolding out
    using map2_update_nth [of i df "final_validation ?res"] i len fv
    by (simp add: length_final_validation)
qed

text \<open>
  C3, as the code has it. In a pass that the cleaning of the labels does not end, take a
  row whose stored label has the value 0 or 1. When the stored country field, with the
  white space around it removed, is not empty, is neither \<^verbatim>\<open>nan\<close> nor \<^verbatim>\<open>None\<close> and
  does not start with a brace, the pass leaves the country field as it is stored and
  writes the label as the integer of the stored value, so that a row that stores the
  integer is returned as it is; otherwise the pass sets the label to -1 and the country
  field to missing. In both cases the result depends on neither the reference data nor
  the signals of the row.
\<close>

theorem preserved_label_rule:
  assumes "labels_finite b df" and "i < length df"
    and "stored_value b (english_speaker (df ! i)) (of_int l)" and "l = 0 \<or> l = 1"
  shows "\<exists>out. process_author_profiles b ud toefl df = Inr out \<and> length out = length df
     \<and> out ! i =
         (if has_country_data (education_countries (df ! i))
          then (df ! i)\<lparr>english_speaker := PyInt l\<rparr>
          else (df ! i)\<lparr>education_countries := None, english_speaker := PyInt (-1)\<rparr>)
     \<and> stored_value b (PyInt l) (of_int l)
     \<and> (english_speaker (df ! i) = PyInt l \<and> has_country_data (education_countries (df ! i))
          \<longrightarrow> out ! i = df ! i)
     \<and> (has_country_data (education_countries (df ! i)) \<longleftrightarrow>
          (\<exists>s. education_countries (df ! i) = Some s \<and> py_strip s \<noteq> []
             \<and> py_strip s \<noteq> ''nan'' \<and> py_strip s \<noteq> ''None''
             \<and> \<not> prefix ''{'' (py_strip s)))"
proof -
  obtain cleaned where cl: "clean_labels b (map english_speaker df) = Inr cleaned"
    using clean_labels_returns [OF assms(1)] by blast
  define out where "out = map2 update_row df
               (final_validation
                  (map (label_row ud toefl (authors_with_labels (zip df cleaned)))
                     (zip df cleaned)))"
  have run: "process_author_profiles b ud toefl df = Inr out"
    unfolding out_def by (rule process_Inr [OF cl])
  have lo: "length out = length df" by (rule pass_length [OF run])
  have ci: "clean_label b (english_speaker (df ! i)) = Inr (Some l)"
    using clean_label_stored [OF assms(3)] assms(4) by blast
  have oi: "out ! i =
         (if has_country_data (education_countries (df ! i))
          then (df ! i)\<lparr>english_speaker := PyInt l\<rparr>
          else (df ! i)\<lparr>education_countries := None, english_speaker := PyInt (-1)\<rparr>)"
    by (rule preserved_row_result [OF run assms(2) ci assms(4)])
  have sv: "stored_value b (PyInt l) (of_int l)"
    using stored_value_int [of l b] assms(4) by blast
  have same: "out ! i = df ! i"
    if "english_speaker (df ! i) = PyInt l \<and> has_country_data (education_countries (df ! i))"
  proof -
    have "(df ! i)\<lparr>english_speaker := english_speaker (df ! i)\<rparr> = df ! i" by simp
    then show ?thesis using oi that by simp
  qed
  show ?thesis
    using run lo oi sv same has_country_data_iff [of "education_countries (df ! i)"] by blast
qed

lemma py_trunc_simps: "py_trunc 0 = 0" "py_trunc 1 = 1" "py_trunc (-1) = -1"
  using py_trunc_of_int [of 0] py_trunc_of_int [of 1] py_trunc_of_int [of "-1"] by simp_all

lemmas pass_eval =
  process_author_profiles_def clean_label_def pd_isna_def py_float_of_simps py_trunc_simps
  authors_with_labels_def label_row_def preserve_row_def has_country_data_def
  process_row_eq final_countries_def merge_current_country_def valid_current_country_def
  resolve_countries_def split_column_def find_country_codes_def match_domain_def
  final_validation_def no_country_def update_row_def sample_row_def sample_universities_def
  py_strip_def py_isspace_def py_startswith_def py_lower_def py_lower_char_def

theorem preserved_label_rule_witness:
  "labels_finite sample_builtins
     [sample_row\<lparr>english_speaker := PyInt 1, education_countries := Some '' US ''\<rparr>]
   \<and> stored_value sample_builtins (PyInt 1) (of_int 1)
   \<and> has_country_data (Some '' US '')
   \<and> process_author_profiles sample_builtins sample_universities sample_toefl
       [sample_row\<lparr>english_speaker := PyInt 1, education_countries := Some '' US ''\<rparr>]
     = Inr [sample_row\<lparr>english_speaker := PyInt 1, education_countries := Some '' US ''\<rparr>]"
proof -
  let ?r = "sample_row\<lparr>english_speaker := PyInt 1, education_countries := Some '' US ''\<rparr>"
  have f: "labels_finite sample_builtins [?r]"
    by (simp add: labels_finite_def overflows_def py_float_of_simps)
  have c: "stored_value sample_builtins (PyInt 1) (of_int 1)"
    by (simp add: stored_value_def py_float_of_simps)
  have c': "stored_value sample_builtins (english_speaker ([?r] ! 0)) (of_int 1)"
    using c by simp
  have h: "has_country_data (Some '' US '')"
    by (simp add: has_country_data_def py_strip_def py_isspace_def py_startswith_def)
  have i: "(0::nat) < length [?r]" and l: "(1::int) = 0 \<or> (1::int) = 1" by simp_all
  from preserved_label_rule [OF f i c' l, of sample_universities sample_toefl]
  obtain out where o: "process_author_profiles sample_builtins sample_universities
        sample_toefl [?r] = Inr out"
    and n: "length out = 1" and v: "out ! 0 = ?r"
    using h by auto
  have "out = [?r]" by (rule singleton_nth [OF n v])
  then show ?thesis using f c h o by simp
qed

text \<open>
  The stored country field \<^verbatim>\<open>' nan'\<close> is not empty, is neither \<^verbatim>\<open>nan\<close> nor \<^verbatim>\<open>None\<close> and
  does not start with a brace; the pass still resets the valid label 1 stored with it,
  because the test is made on the field with the white space around it removed.
\<close>

theorem preserved_label_untrimmed_counterexample:
  "'' nan'' \<noteq> [] \<and> '' nan'' \<noteq> ''nan'' \<and> '' nan'' \<noteq> ''None''
   \<and> \<not> py_startswith '' nan'' ''{''
   \<and> process_author_profiles sample_builtins sample_universities sample_toefl
       [sample_row\<lparr>english_speaker := PyInt 1, education_countries := Some '' nan''\<rparr>]
     = Inr [sample_row\<lparr>english_speaker := PyInt (-1), education_countries := None\<rparr>]"
  by (simp add: pass_eval)




section \<open>A second pass over the result of a first one\<close>

lemma process_row_update: "process_row ud toefl (update_row row cl) = process_row ud toefl row"
  by (cases cl) (simp add: process_row_def resolve_countries_def update_row_def)

lemma update_row_fields:
  "author_name (update_row row cl) = author_name row"
  "english_speaker (update_row row cl) = PyInt (snd cl)"
  "education_countries (update_row row cl) = fst cl"
  "update_row (update_row row cl) cl' = update_row row cl'"
  by (cases cl; cases cl'; simp add: update_row_def)+

lemma well_labelled_cases:
  "well_labelled x \<Longrightarrow> x = (None, -1) \<or> (fst x \<noteq> None \<and> (snd x = 0 \<or> snd x = 1))"
  by (simp add: well_labelled_def)

lemma has_valid_label_index:
  "has_valid_label b df author \<longleftrightarrow>
     (\<exists>j<length df. author_name (df ! j) = author
        \<and> (clean_label b (english_speaker (df ! j)) = Inr (Some 0)
           \<or> clean_label b (english_speaker (df ! j)) = Inr (Some 1)))"
  unfolding has_valid_label_def by (metis in_set_conv_nth)

lemma preserve_row_range: "snd (preserve_row row cleaned) \<in> {-1, 0, 1}"
  by (auto simp: preserve_row_def Let_def split: option.splits)

lemma label_row_range: "snd (label_row ud toefl awl rl) \<in> {-1, 0, 1}"
proof (cases rl)
  case (Pair row cleaned)
  show ?thesis
    using preserve_row_range [of row cleaned]
      well_labelled_cases [OF process_row_well [of ud toefl row]]
    by (auto simp: label_row_def Pair)
qed

lemma final_validation_range:
  assumes "\<forall>x\<in>set res. snd x \<in> {-1, 0, 1}" and "i < length res"
  shows "snd (final_validation res ! i) \<in> {-1, 0, 1}"
proof -
  have "snd (res ! i) \<in> {-1, 0, 1}" using assms by simp
  then have "snd (repaired (res ! i)) \<in> {-1, 0, 1}" by (auto simp: repaired_def)
  then show ?thesis
    using assms \<open>snd (res ! i) \<in> {-1, 0, 1}\<close> by (auto simp: final_validation_eq)
qed

text \<open>The labels that a pass writes are the integers -1, 0 and 1.\<close>

lemma pass_labels:
  assumes run: "process_author_profiles b ud toefl df = Inr out" and i: "i < length df"
  shows "\<exists>l. english_speaker (out ! i) = PyInt l \<and> l \<in> {-1, 0, 1}"
proof -
  from process_InrD [OF run] obtain cleaned where len: "length cleaned = length df"
    and out: "out = map2 update_row df
               (final_validation
                  (map (label_row ud toefl (authors_with_labels (zip df cleaned)))
                     (zip df cleaned)))"
    by blast
  let ?res = "map (label_row ud toefl (authors_with_labels (zip df cleaned))) (zip df cleaned)"
  have "\<forall>x\<in>set ?res. snd x \<in> {-1, 0, 1}"
    using label_row_range by auto
  then have "snd (final_validation ?res ! i) \<in> {-1, 0, 1}"
    using i len by (intro final_validation_range) simp_all
  moreover have "out ! i = update_row (df ! i) (final_validation ?res ! i)"
    unfolding out
    using map2_update_nth [of i df "final_validation ?res"] i len
    by (simp add: length_final_validation)
  ultimately show ?thesis by (simp add: update_row_fields)
qed

text \<open>
  The row that the pass returns for a row of the preserved branch without country data.
\<close>

lemma preserved_nodata_result:
  assumes run: "process_author_profiles b ud toefl df = Inr out" and i: "i < length df"
    and v: "has_valid_label b df (author_name (df ! i))"
    and nd: "\<not> has_country_data (education_countries (df ! i))"
  shows "out ! i = (df ! i)\<lparr>education_countries := None, english_speaker := PyInt (-1)\<rparr>"
proof -
  from process_InrD [OF run] obtain cleaned where len: "length cleaned = length df"
    and nth: "\<forall>j<length df. clean_label b (english_speaker (df ! j)) = Inr (cleaned ! j)"
    and out: "out = map2 update_row df
               (final_validation
                  (map (label_row ud toefl (authors_with_labels (zip df cleaned)))
                     (zip df cleaned)))"
    by blast
  let ?awl = "authors_with_labels (zip df cleaned)"
  let ?res = "map (label_row ud toefl ?awl) (zip df cleaned)"
  from v obtain j where j: "j < length df" "author_name (df ! j) = author_name (df ! i)"
    and "clean_label b (english_speaker (df ! j)) = Inr (Some 0)
           \<or> clean_label b (english_speaker (df ! j)) = Inr (Some 1)"
    unfolding has_valid_label_index by blast
  then have "cleaned ! j = Some 0 \<or> cleaned ! j = Some 1" using nth by auto
  then have mem: "author_name (df ! i) \<in> ?awl"
    using in_authors_with_labels [OF len j(1)] j(2) by simp
  have res_i: "?res ! i = (None, -1)"
    using i len mem by (simp add: label_row_def preserve_row_no_data [OF nd])
  have "repaired (?res ! i) = ?res ! i"
    unfolding res_i by (rule repaired_fixed) simp
  then have fv: "final_validation ?res ! i = (None, -1)"
    using final_validation_nth_fixed [of i ?res] res_i i len by simp
  have "out ! i = update_row (df ! i) (None, -1)"
    unfolding out
    using map2_update_nth [of i df "final_validation ?res"] i len fv
    by (simp add: length_final_validation)
  then show ?thesis by (simp add: update_row_def)
qed

lemma triple_nth:
  "xs ! 0 = a \<Longrightarrow> xs ! 1 = b \<Longrightarrow> xs ! 2 = c \<Longrightarrow> length xs = 3 \<Longrightarrow> xs = [a, b, c]"
  by (cases xs; cases "tl xs"; cases "tl (tl xs)") auto

text \<open>
  C2, as the code has it. A first pass over a data frame returns a result, which is
  written to a file; a second pass reads it back, with the labels as they were written
  and with country fields that may be read differently, a missing one as missing. The
  second pass returns a result, and in it, first, every row that the first pass gave the
  label 0 or 1 is the row as read back when its country field as read back, with the
  white space around it removed, is not empty, is neither \<^verbatim>\<open>nan\<close> nor \<^verbatim>\<open>None\<close> and does
  not start with a brace, and is reset to the label -1 without a country field
  otherwise. Second, when the first data frame was unlabelled, every row that the first
  pass gave the label -1 is returned as the first pass returned it. So third, when the
  first data frame was unlabelled and every row with the label 0 or 1 has a country field
  that is read back as it was written and passes that test, the two passes give what the
  single pass gave.
\<close>

theorem second_pass_rule:
  assumes "process_author_profiles b ud toefl df = Inr out"
    and "length df2 = length out"
    and "\<forall>j<length out.
           df2 ! j = (out ! j)\<lparr>education_countries := education_countries (df2 ! j)\<rparr>"
    and "\<forall>j<length out. education_countries (out ! j) = None
           \<longrightarrow> education_countries (df2 ! j) = None"
  shows "\<exists>out2. process_author_profiles b ud toefl df2 = Inr out2 \<and> length out2 = length out
     \<and> (\<forall>i<length out. english_speaker (out ! i) \<noteq> PyInt (-1) \<longrightarrow>
          out2 ! i =
            (if has_country_data (education_countries (df2 ! i)) then df2 ! i
             else (df2 ! i)\<lparr>education_countries := None, english_speaker := PyInt (-1)\<rparr>))
     \<and> (unlabelled b df \<longrightarrow>
          (\<forall>i<length out. english_speaker (out ! i) = PyInt (-1) \<longrightarrow> out2 ! i = out ! i))
     \<and> (unlabelled b df
          \<and> (\<forall>i<length out. english_speaker (out ! i) \<noteq> PyInt (-1) \<longrightarrow>
                education_countries (df2 ! i) = education_countries (out ! i)
                \<and> has_country_data (education_countries (out ! i)))
          \<longrightarrow> out2 = out)"
proof -
  note first = assms(1)
  have lo: "length out = length df" by (rule pass_length [OF first])
  have lab: "\<exists>l. english_speaker (out ! j) = PyInt l \<and> l \<in> {-1, 0, 1}"
    if "j < length out" for j
    using pass_labels [OF first] that lo by simp
  have es2: "english_speaker (df2 ! j) = english_speaker (out ! j)"
    and an2: "author_name (df2 ! j) = author_name (out ! j)"
    and pr2: "process_row ud toefl (df2 ! j) = process_row ud toefl (out ! j)"
    if j: "j < length out" for j
  proof -
    have eq: "df2 ! j = (out ! j)\<lparr>education_countries := education_countries (df2 ! j)\<rparr>"
      using assms(3) j by blast
    show "english_speaker (df2 ! j) = english_speaker (out ! j)"
      by (subst eq) simp
    show "author_name (df2 ! j) = author_name (out ! j)"
      by (subst eq) simp
    show "process_row ud toefl (df2 ! j) = process_row ud toefl (out ! j)"
      by (subst eq) (simp add: process_row_def resolve_countries_def)
  qed
  have fin2: "labels_finite b df2"
    unfolding labels_finite_def
  proof
    fix r assume "r \<in> set df2"
    then obtain j where j: "j < length out" and r: "r = df2 ! j"
      using assms(2) by (metis in_set_conv_nth)
    from lab [OF j] obtain l where l: "english_speaker (out ! j) = PyInt l"
      "l = 0 \<or> l = 1 \<or> l = -1"
      by auto
    have "py_float_of b (english_speaker r) = Inr (FFinite (of_int l))"
      unfolding r es2 [OF j] l(1) by (rule py_float_of_label [OF l(2)])
    then show "\<not> overflows b (english_speaker r)" by (simp add: overflows_def)
  qed
  obtain cleaned2 where cl2: "clean_labels b (map english_speaker df2) = Inr cleaned2"
    using clean_labels_returns [OF fin2] by blast
  define out2 where "out2 = map2 update_row df2
               (final_validation
                  (map (label_row ud toefl (authors_with_labels (zip df2 cleaned2)))
                     (zip df2 cleaned2)))"
  have second: "process_author_profiles b ud toefl df2 = Inr out2"
    unfolding out2_def by (rule process_Inr [OF cl2])
  have lo2: "length out2 = length out"
    using pass_length [OF second] assms(2) by simp
  have valid: "out2 ! i =
            (if has_country_data (education_countries (df2 ! i)) then df2 ! i
             else (df2 ! i)\<lparr>education_countries := None, english_speaker := PyInt (-1)\<rparr>)"
    if i: "i < length out" and v: "english_speaker (out ! i) \<noteq> PyInt (-1)" for i
  proof -
    from lab [OF i] v obtain l where l: "english_speaker (out ! i) = PyInt l" "l = 0 \<or> l = 1"
      by auto
    have es: "english_speaker (df2 ! i) = PyInt l" using es2 [OF i] l(1) by simp
    have "clean_label b (english_speaker (df2 ! i)) = Inr (Some l)"
      unfolding es using l(2) by (intro clean_label_int) auto
    from preserved_row_result [OF second _ this l(2)] i assms(2)
    have "out2 ! i =
         (if has_country_data (education_countries (df2 ! i))
          then (df2 ! i)\<lparr>english_speaker := PyInt l\<rparr>
          else (df2 ! i)\<lparr>education_countries := None, english_speaker := PyInt (-1)\<rparr>)"
      by simp
    moreover have "(df2 ! i)\<lparr>english_speaker := PyInt l\<rparr> = df2 ! i"
      unfolding es [symmetric] by simp
    ultimately show ?thesis by simp
  qed
  have unknown: "out2 ! i = out ! i"
    if fresh: "unlabelled b df" and i: "i < length out"
      and u: "english_speaker (out ! i) = PyInt (-1)" for i
  proof -
    let ?x = "process_row ud toefl (df ! i)"
    have i': "i < length df" using i lo by simp
    have none: "\<forall>j<length df. author_name (df ! j) = author_name (df ! i) \<longrightarrow>
        clean_label b (english_speaker (df ! j)) \<noteq> Inr (Some 0)
        \<and> clean_label b (english_speaker (df ! j)) \<noteq> Inr (Some 1)"
      using fresh unfolding unlabelled_def by simp
    have oi: "out ! i = update_row (df ! i) (repaired ?x)"
      by (rule fresh_row_result [OF first i' none])
    have "snd (repaired ?x) = -1"
      using u unfolding oi by (simp add: update_row_fields)
    then have rx: "repaired ?x = (None, -1)"
      using well_labelled_cases [OF well_labelled_repaired [OF process_row_well [of ud toefl "df ! i"]]]
      by auto
    have oi': "out ! i = update_row (df ! i) (None, -1)" using oi rx by simp
    have "education_countries (out ! i) = None" unfolding oi' by (simp add: update_row_fields)
    then have ec2: "education_countries (df2 ! i) = None" using assms(4) i by blast
    have "df2 ! i = (out ! i)\<lparr>education_countries := None\<rparr>"
      using assms(3) i ec2 by metis
    then have d2: "df2 ! i = out ! i"
      unfolding oi' by (simp add: update_row_def)
    have i2: "i < length df2" using i assms(2) by simp
    show ?thesis
    proof (cases "has_valid_label b df2 (author_name (df2 ! i))")
      case True
      have "\<not> has_country_data (education_countries (df2 ! i))"
        unfolding ec2 by (simp add: has_country_data_def)
      from preserved_nodata_result [OF second i2 True this]
      show ?thesis unfolding d2 oi' by (simp add: update_row_def)
    next
      case False
      have none2: "\<forall>j<length df2. author_name (df2 ! j) = author_name (df2 ! i) \<longrightarrow>
        clean_label b (english_speaker (df2 ! j)) \<noteq> Inr (Some 0)
        \<and> clean_label b (english_speaker (df2 ! j)) \<noteq> Inr (Some 1)"
        using False unfolding has_valid_label_index by blast
      have "process_row ud toefl (df2 ! i) = ?x"
        unfolding d2 oi by (rule process_row_update)
      with fresh_row_result [OF second i2 none2]
      have "out2 ! i = update_row (df2 ! i) (None, -1)" using rx by simp
      then show ?thesis unfolding d2 oi' by (simp add: update_row_fields)
    qed
  qed
  have same: "out2 = out"
    if fresh: "unlabelled b df"
      and g: "\<forall>i<length out. english_speaker (out ! i) \<noteq> PyInt (-1) \<longrightarrow>
                education_countries (df2 ! i) = education_countries (out ! i)
                \<and> has_country_data (education_countries (out ! i))"
  proof (rule nth_equalityI)
    show "length out2 = length out" by (rule lo2)
  next
    fix i assume "i < length out2"
    then have i: "i < length out" using lo2 by simp
    show "out2 ! i = out ! i"
    proof (cases "english_speaker (out ! i) = PyInt (-1)")
      case True
      then show ?thesis by (rule unknown [OF fresh i])
    next
      case False
      then have ec: "education_countries (df2 ! i) = education_countries (out ! i)"
        and h: "has_country_data (education_countries (out ! i))"
        using g i by blast+
      have "df2 ! i = (out ! i)\<lparr>education_countries := education_countries (out ! i)\<rparr>"
        using assms(3) i ec by metis
      then have "df2 ! i = out ! i" by simp
      then show ?thesis using valid [OF i False] h by simp
    qed
  qed
  show ?thesis
    using second lo2 valid unknown same by blast
qed

theorem second_pass_rule_witness:
  "unlabelled sample_builtins
     [sample_row\<lparr>filtered_email_domains := ''unam.edu.na''\<rparr>,
      sample_row\<lparr>author_name := ''B. Author'', current_country := Some ''Kenya''\<rparr>,
      sample_row\<lparr>author_name := ''C. Author''\<rparr>]
   \<and> process_author_profiles sample_builtins namibia_universities sample_toefl
     [sample_row\<lparr>filtered_email_domains := ''unam.edu.na''\<rparr>,
      sample_row\<lparr>author_name := ''B. Author'', current_country := Some ''Kenya''\<rparr>,
      sample_row\<lparr>author_name := ''C. Author''\<rparr>]
   = Inr
     [sample_row\<lparr>filtered_email_domains := ''unam.edu.na'',
                 education_countries := Some ''NA'', english_speaker := PyInt 0\<rparr>,
      sample_row\<lparr>author_name := ''B. Author'', current_country := Some ''Kenya'',
                 education_countries := Some ''Kenya'', english_speaker := PyInt 0\<rparr>,
      sample_row\<lparr>author_name := ''C. Author'', english_speaker := PyInt (-1)\<rparr>]
   \<and> process_author_profiles sample_builtins namibia_universities sample_toefl
     [sample_row\<lparr>filtered_email_domains := ''unam.edu.na'',
                 education_countries := None, english_speaker := PyInt 0\<rparr>,
      sample_row\<lparr>author_name := ''B. Author'', current_country := Some ''Kenya'',
                 education_countries := Some ''Kenya'', english_speaker := PyInt 0\<rparr>,
      sample_row\<lparr>author_name := ''C. Author'', english_speaker := PyInt (-1)\<rparr>]
   = Inr
     [sample_row\<lparr>filtered_email_domains := ''unam.edu.na'',
                 education_countries := None, english_speaker := PyInt (-1)\<rparr>,
      sample_row\<lparr>author_name := ''B. Author'', current_country := Some ''Kenya'',
                 education_countries := Some ''Kenya'', english_speaker := PyInt 0\<rparr>,
      sample_row\<lparr>author_name := ''C. Author'', english_speaker := PyInt (-1)\<rparr>]"
proof -
  let ?a = "sample_row\<lparr>filtered_email_domains := ''unam.edu.na''\<rparr>"
  let ?b = "sample_row\<lparr>author_name := ''B. Author'', current_country := Some ''Kenya''\<rparr>"
  let ?c = "sample_row\<lparr>author_name := ''C. Author''\<rparr>"
  let ?a1 = "sample_row\<lparr>filtered_email_domains := ''unam.edu.na'',
                 education_countries := Some ''NA'', english_speaker := PyInt 0\<rparr>"
  let ?b1 = "sample_row\<lparr>author_name := ''B. Author'', current_country := Some ''Kenya'',
                 education_countries := Some ''Kenya'', english_speaker := PyInt 0\<rparr>"
  let ?c1 = "sample_row\<lparr>author_name := ''C. Author'', english_speaker := PyInt (-1)\<rparr>"
  let ?a2 = "sample_row\<lparr>filtered_email_domains := ''unam.edu.na'',
                 education_countries := None, english_speaker := PyInt 0\<rparr>"
  let ?a3 = "sample_row\<lparr>filtered_email_domains := ''unam.edu.na'',
                 education_countries := None, english_speaker := PyInt (-1)\<rparr>"
  let ?df = "[?a, ?b, ?c]"
  let ?out = "[?a1, ?b1, ?c1]"
  let ?df2 = "[?a2, ?b1, ?c1]"
  have u: "unlabelled sample_builtins ?df"
    by (simp add: unlabelled_def sample_row_def clean_label_def pd_isna_def)
  have p: "process_author_profiles sample_builtins namibia_universities sample_toefl ?df
             = Inr ?out"
    by (simp add: pass_eval namibia_universities_def exempt_code_get dict_get_def
        sample_toefl_eq)
  have n: "length ?df2 = length ?out" by simp
  have rb: "\<forall>j<length ?out.
      ?df2 ! j = (?out ! j)\<lparr>education_countries := education_countries (?df2 ! j)\<rparr>"
    by (simp add: All_less_Suc sample_row_def)
  have rn: "\<forall>j<length ?out. education_countries (?out ! j) = None
           \<longrightarrow> education_countries (?df2 ! j) = None"
    by (simp add: All_less_Suc sample_row_def)
  from second_pass_rule [OF p n rb rn] obtain out2 where
    o: "process_author_profiles sample_builtins namibia_universities sample_toefl ?df2
          = Inr out2"
    and l: "length out2 = length ?out"
    and v: "\<forall>i<length ?out. english_speaker (?out ! i) \<noteq> PyInt (-1) \<longrightarrow>
          out2 ! i =
            (if has_country_data (education_countries (?df2 ! i)) then ?df2 ! i
             else (?df2 ! i)\<lparr>education_countries := None, english_speaker := PyInt (-1)\<rparr>)"
    and k: "unlabelled sample_builtins ?df \<longrightarrow>
          (\<forall>i<length ?out. english_speaker (?out ! i) = PyInt (-1) \<longrightarrow> out2 ! i = ?out ! i)"
    by blast
  have h: "has_country_data (Some ''Kenya'')" "\<not> has_country_data None"
    by (simp_all add: has_country_data_def py_strip_def py_isspace_def py_startswith_def)
  have "out2 ! 0 = ?a3"
    using v [rule_format, of 0] h by (simp add: sample_row_def)
  moreover have "out2 ! 1 = ?b1"
    using v [rule_format, of 1] h by (simp add: sample_row_def)
  moreover have "out2 ! 2 = ?c1"
    using k [rule_format, OF u, of 2] by (simp add: sample_row_def)
  moreover have "length out2 = 3" using l by simp
  ultimately have "out2 = [?a3, ?b1, ?c1]" by (rule triple_nth)
  then have q: "process_author_profiles sample_builtins namibia_universities sample_toefl
      ?df2 = Inr [?a3, ?b1, ?c1]"
    using o by simp
  show ?thesis
    by (intro conjI) (rule u, rule p, rule q)
qed

text \<open>
  A row without signals whose self-reported country starts with a brace: the first pass
  gives it the label 0 with that country as its country field, and the second pass over
  the result resets the label to -1 and clears the field.
\<close>

theorem second_pass_brace_counterexample:
  "process_author_profiles sample_builtins sample_universities sample_toefl
     [sample_row\<lparr>current_country := Some ''{US}''\<rparr>]
   = Inr [sample_row\<lparr>current_country := Some ''{US}'',
                      education_countries := Some ''{US}'', english_speaker := PyInt 0\<rparr>]
   \<and> process_author_profiles sample_builtins sample_universities sample_toefl
     [sample_row\<lparr>current_country := Some ''{US}'',
                 education_countries := Some ''{US}'', english_speaker := PyInt 0\<rparr>]
   = Inr [sample_row\<lparr>current_country := Some ''{US}'',
                      education_countries := None, english_speaker := PyInt (-1)\<rparr>]"
  by (simp add: pass_eval exempt_code_get dict_get_def sample_toefl_eq)

section \<open>The English speaker flag of a row in the pass\<close>

lemma not_has_valid_label:
  assumes "\<not> has_valid_label b df (author_name (df ! i))"
  shows "\<forall>j<length df. author_name (df ! j) = author_name (df ! i) \<longrightarrow>
        clean_label b (english_speaker (df ! j)) \<noteq> Inr (Some 0)
        \<and> clean_label b (english_speaker (df ! j)) \<noteq> Inr (Some 1)"
  using assms nth_mem [of _ df] unfolding has_valid_label_def by blast

lemma semicolon_not_space: "\<not> py_isspace CHR '';''"
  by (simp add: py_isspace_def)

lemma py_join_blank:
  "py_strip (py_join ''; '' xs) = [] \<longleftrightarrow> xs = [] \<or> (\<exists>c. xs = [c] \<and> py_strip c = [])"
proof (cases xs)
  case Nil
  then show ?thesis by (simp add: py_strip_def)
next
  case (Cons x ys)
  show ?thesis
  proof (cases ys)
    case Nil
    then show ?thesis using Cons by simp
  next
    case (Cons y zs)
    have "CHR '';'' \<in> set (py_join ''; '' (x # y # zs))" by simp
    then have "py_strip (py_join ''; '' (x # y # zs)) \<noteq> []"
      unfolding py_strip_empty_iff using semicolon_not_space by blast
    then show ?thesis using \<open>xs = x # ys\<close> Cons by simp
  qed
qed

lemma joined_blank_iff:
  assumes "final_countries ud row \<noteq> {}"
  shows "py_strip (joined_countries ud row) = [] \<longleftrightarrow>
     (\<exists>code. final_countries ud row = {code} \<and> py_strip code = [])"
proof -
  let ?S = "final_countries ud row"
  have fin: "finite ?S" by (rule finite_final_countries)
  have ne: "sorted_list_of_set ?S \<noteq> []" using assms fin by simp
  have "py_strip (joined_countries ud row) = [] \<longleftrightarrow>
          (\<exists>c. sorted_list_of_set ?S = [c] \<and> py_strip c = [])"
    unfolding joined_countries_def py_join_blank using ne by simp
  also have "\<dots> \<longleftrightarrow> (\<exists>code. ?S = {code} \<and> py_strip code = [])"
  proof
    assume "\<exists>c. sorted_list_of_set ?S = [c] \<and> py_strip c = []"
    then obtain c where c: "sorted_list_of_set ?S = [c]" "py_strip c = []" by blast
    have "set (sorted_list_of_set ?S) = ?S" using fin by simp
    then have "?S = {c}" using c(1) by simp
    then show "\<exists>code. ?S = {code} \<and> py_strip code = []" using c(2) by blast
  next
    assume "\<exists>code. ?S = {code} \<and> py_strip code = []"
    then obtain code where "?S = {code}" "py_strip code = []" by blast
    then show "\<exists>c. sorted_list_of_set ?S = [c] \<and> py_strip c = []" by simp
  qed
  finally show ?thesis .
qed

lemma no_country_joined: "no_country (Some s) \<longleftrightarrow> py_strip s = []"
  by (auto simp: no_country_def py_strip_def)

text \<open>
  C6, as the code has it. In a pass that the cleaning of the labels does not end, take a
  row whose author has no preserved label and whose country set is not empty. When the
  set holds a single code that is empty or blank, so that the joined country field is
  blank, the pass returns the row with the label -1 and no country field. Otherwise it
  returns the row with the joined codes as its country field, and with the label 1 when
  some code of the set is exempt, and 0 when none is; a code is exempt when the table of
  display names has a name for it and the TOEFL table has the requirement \<^verbatim>\<open>Exempt\<close> for
  the lower-cased name. The flag loop gives the same result for every order in which the
  set may yield its codes.
\<close>

theorem english_flag_rule:
  assumes "labels_finite b df" and "i < length df"
    and "\<not> has_valid_label b df (author_name (df ! i))"
    and "final_countries ud (df ! i) \<noteq> {}"
  shows "\<exists>out. process_author_profiles b ud toefl df = Inr out \<and> length out = length df
    \<and> out ! i =
        (if \<exists>code. final_countries ud (df ! i) = {code} \<and> py_strip code = []
         then (df ! i)\<lparr>education_countries := None, english_speaker := PyInt (-1)\<rparr>
         else (df ! i)\<lparr>education_countries := Some (joined_countries ud (df ! i)),
                 english_speaker :=
                   PyInt (if \<exists>code\<in>final_countries ud (df ! i). exempt_code ud toefl code
                          then 1 else 0)\<rparr>)
    \<and> (set codes = final_countries ud (df ! i) \<longrightarrow>
          english_flag_loop ud toefl codes =
            (if \<exists>code\<in>final_countries ud (df ! i). exempt_code ud toefl code then 1 else 0))
    \<and> (exempt_code ud toefl code \<longleftrightarrow>
          (\<exists>name. map_of (code_to_country_name ud) code = Some name \<and> name \<noteq> []
             \<and> map_of toefl (py_lower name) = Some ''Exempt''))"
proof -
  obtain cleaned where cl: "clean_labels b (map english_speaker df) = Inr cleaned"
    using clean_labels_returns [OF assms(1)] by blast
  define out where "out = map2 update_row df
               (final_validation
                  (map (label_row ud toefl (authors_with_labels (zip df cleaned)))
                     (zip df cleaned)))"
  have run: "process_author_profiles b ud toefl df = Inr out"
    unfolding out_def by (rule process_Inr [OF cl])
  have lo: "length out = length df" by (rule pass_length [OF run])
  let ?flag = "if \<exists>code\<in>final_countries ud (df ! i). exempt_code ud toefl code
               then 1 else (0::int)"
  have pr: "process_row ud toefl (df ! i) = (Some (joined_countries ud (df ! i)), ?flag)"
    using assms(4) by (simp add: process_row_eq joined_countries_def)
  have oi: "out ! i = update_row (df ! i) (repaired (process_row ud toefl (df ! i)))"
    by (rule fresh_row_result [OF run assms(2) not_has_valid_label [OF assms(3)]])
  have rep: "repaired (Some j, f) = (if py_strip j = [] then (None, -1) else (Some j, f))"
    for j and f :: int
    by (simp add: repaired_def no_country_joined)
  have "out ! i =
        (if \<exists>code. final_countries ud (df ! i) = {code} \<and> py_strip code = []
         then (df ! i)\<lparr>education_countries := None, english_speaker := PyInt (-1)\<rparr>
         else (df ! i)\<lparr>education_countries := Some (joined_countries ud (df ! i)),
                 english_speaker := PyInt ?flag\<rparr>)"
  proof (cases "\<exists>code. final_countries ud (df ! i) = {code} \<and> py_strip code = []")
    case True
    then have "py_strip (joined_countries ud (df ! i)) = []"
      using joined_blank_iff [OF assms(4)] by blast
    then have "out ! i = update_row (df ! i) (None, -1)"
      unfolding oi pr rep by simp
    then show ?thesis using True by (simp add: update_row_def)
  next
    case False
    then have "py_strip (joined_countries ud (df ! i)) \<noteq> []"
      using joined_blank_iff [OF assms(4)] by blast
    then have "out ! i = update_row (df ! i) (Some (joined_countries ud (df ! i)), ?flag)"
      unfolding oi pr rep by simp
    then show ?thesis using False by (simp add: update_row_def)
  qed
  then show ?thesis
    using run lo by (simp add: english_flag_loop_eq exempt_code_def)
qed

theorem english_flag_rule_witness:
  "labels_finite sample_builtins [sample_row\<lparr>filtered_email_domains := ''mit.edu; tum.de''\<rparr>]
   \<and> \<not> has_valid_label sample_builtins
         [sample_row\<lparr>filtered_email_domains := ''mit.edu; tum.de''\<rparr>] ''A. Author''
   \<and> final_countries sample_universities
       (sample_row\<lparr>filtered_email_domains := ''mit.edu; tum.de''\<rparr>) = {''DE'', ''US''}
   \<and> exempt_code sample_universities sample_toefl ''US''
   \<and> \<not> exempt_code sample_universities sample_toefl ''DE''
   \<and> process_author_profiles sample_builtins sample_universities sample_toefl
       [sample_row\<lparr>filtered_email_domains := ''mit.edu; tum.de''\<rparr>]
     = Inr [sample_row\<lparr>filtered_email_domains := ''mit.edu; tum.de'',
                        education_countries := Some ''DE; US'', english_speaker := PyInt 1\<rparr>]"
proof -
  let ?row = "sample_row\<lparr>filtered_email_domains := ''mit.edu; tum.de''\<rparr>"
  let ?row' = "sample_row\<lparr>filtered_email_domains := ''mit.edu; tum.de'',
                        education_countries := Some ''DE; US'', english_speaker := PyInt 1\<rparr>"
  have f: "labels_finite sample_builtins [?row]"
    by (simp add: labels_finite_def overflows_def py_float_of_simps sample_row_def)
  have v: "\<not> has_valid_label sample_builtins [?row] ''A. Author''"
    by (simp add: has_valid_label_def sample_row_def clean_label_def pd_isna_def)
  have v': "\<not> has_valid_label sample_builtins [?row] (author_name ([?row] ! 0))"
    using v by (simp add: sample_row_def)
  have fc: "final_countries sample_universities ?row = {''DE'', ''US''}"
    by (rule sample_final_countries)
  have ne: "final_countries sample_universities ([?row] ! 0) \<noteq> {}"
    by (simp add: fc)
  have us: "exempt_code sample_universities sample_toefl ''US''"
    by (simp add: exempt_code_get dict_get_def sample_universities_def sample_toefl_eq
        py_lower_def py_lower_char_def)
  have de: "\<not> exempt_code sample_universities sample_toefl ''DE''"
    by (simp add: exempt_code_get dict_get_def sample_universities_def sample_toefl_eq
        py_lower_def py_lower_char_def)
  have i: "(0::nat) < length [?row]" by simp
  have single: "\<not> (\<exists>code. final_countries sample_universities ?row = {code}
      \<and> py_strip code = [])"
    unfolding fc by (auto simp: doubleton_eq_iff)
  have ex: "\<exists>code\<in>final_countries sample_universities ?row.
              exempt_code sample_universities sample_toefl code"
    using us by (simp add: fc)
  have j: "joined_countries sample_universities ?row = ''DE; US''"
    by (simp add: joined_countries_def fc)
  from english_flag_rule [OF f i v' ne, of sample_toefl]
  obtain out where o: "process_author_profiles sample_builtins sample_universities
        sample_toefl [?row] = Inr out"
    and n: "length out = length [?row]"
    and r: "out ! 0 =
        (if \<exists>code. final_countries sample_universities ([?row] ! 0) = {code}
              \<and> py_strip code = []
         then ([?row] ! 0)\<lparr>education_countries := None, english_speaker := PyInt (-1)\<rparr>
         else ([?row] ! 0)\<lparr>education_countries :=
                   Some (joined_countries sample_universities ([?row] ! 0)),
                 english_speaker :=
                   PyInt (if \<exists>code\<in>final_countries sample_universities ([?row] ! 0).
                               exempt_code sample_universities sample_toefl code
                          then 1 else 0)\<rparr>)"
    by blast
  have "out ! 0 = ?row'"
    using r single ex j by simp
  then have "out = [?row']" using n by (intro singleton_nth) simp_all
  then have p: "process_author_profiles sample_builtins sample_universities sample_toefl
      [?row] = Inr [?row']"
    using o by simp
  show ?thesis
    by (intro conjI) (rule f, rule v, rule fc, rule us, rule de, rule p)
qed

text \<open>
  A university without a country code gives its domain the empty code. A row without a
  preserved label whose only domain is that one has the country set that holds the empty
  code, which is not empty; the loop gives it the label 0 with the empty country field,
  and step 7 resets it: the pass returns the label -1.
\<close>

theorem english_flag_blank_counterexample:
  "\<not> has_valid_label sample_builtins
       [sample_row\<lparr>filtered_email_domains := ''example.org''\<rparr>] ''A. Author''
   \<and> final_countries uncoded_universities
       (sample_row\<lparr>filtered_email_domains := ''example.org''\<rparr>) = {[]}
   \<and> final_countries uncoded_universities
       (sample_row\<lparr>filtered_email_domains := ''example.org''\<rparr>) \<noteq> {}
   \<and> process_row uncoded_universities sample_toefl
       (sample_row\<lparr>filtered_email_domains := ''example.org''\<rparr>) = (Some [], 0)
   \<and> process_author_profiles sample_builtins uncoded_universities sample_toefl
       [sample_row\<lparr>filtered_email_domains := ''example.org''\<rparr>]
     = Inr [sample_row\<lparr>filtered_email_domains := ''example.org'',
                        english_speaker := PyInt (-1)\<rparr>]"
proof -
  let ?row = "sample_row\<lparr>filtered_email_domains := ''example.org''\<rparr>"
  have v: "\<not> has_valid_label sample_builtins [?row] ''A. Author''"
    by (simp add: has_valid_label_def sample_row_def clean_label_def pd_isna_def)
  have fc: "final_countries uncoded_universities ?row = {[]}"
    by (simp add: final_countries_def merge_current_country_def valid_current_country_def
        resolve_countries_def split_column_def find_country_codes_def match_domain_def
        sample_row_def uncoded_universities_def py_strip_def py_isspace_def)
  have ne: "final_countries uncoded_universities ?row \<noteq> {}"
    unfolding fc by simp
  have ex: "\<not> exempt_code uncoded_universities sample_toefl []"
    by (simp add: exempt_code_def uncoded_universities_def)
  have pr: "process_row uncoded_universities sample_toefl ?row = (Some [], 0)"
    unfolding process_row_eq fc using ex by simp
  have p: "process_author_profiles sample_builtins uncoded_universities sample_toefl [?row]
      = Inr [sample_row\<lparr>filtered_email_domains := ''example.org'',
                        english_speaker := PyInt (-1)\<rparr>]"
    by (simp add: process_author_profiles_def clean_label_def pd_isna_def
        authors_with_labels_def label_row_def pr [unfolded sample_row_def, simplified]
        final_validation_def no_country_def update_row_def sample_row_def)
  show ?thesis
    by (intro conjI) (rule v, rule fc, rule ne, rule pr, rule p)
qed

end
